theory Spec2Isabelle
  imports
    Main
    "HOL-Library.AList"
    "HOL-Library.Char_ord"
    "HOL-Library.List_Lexorder"
    "HOL-Library.Sublist"
begin

section \<open>Exceptions\<close>

text \<open>
  The exception classes that the script can meet.  \<open>KeyboardInterrupt\<close> stands for the
  classes below \<open>BaseException\<close> that are not below \<open>Exception\<close>; the remaining ones
  are \<open>OSError\<close> (alias \<open>IOError\<close>) and its subclasses.  An exception carries the text
  that \<open>str(e)\<close> gives.
\<close>

datatype exc_class =
    KeyboardInterrupt
  | OSError
  | FileNotFoundError
  | FileExistsError
  | PermissionError
  | IsADirectoryError
  | NotADirectoryError

datatype exn = Exn (cls: exc_class) (str: string)

fun issubclass_Exception :: "exc_class \<Rightarrow> bool" where
  "issubclass_Exception KeyboardInterrupt = False"
| "issubclass_Exception _ = True"

fun issubclass_OSError :: "exc_class \<Rightarrow> bool" where
  "issubclass_OSError KeyboardInterrupt = False"
| "issubclass_OSError _ = True"

section \<open>Paths, file contents and the file system\<close>

text \<open>
  A path is the list of its components below the root, so \<open>p / name\<close> is \<open>p @ [name]\<close>,
  \<open>p.name\<close> is \<open>last p\<close> and the parent of \<open>p\<close> is \<open>butlast p\<close>.  Strings are byte strings:
  a character outside ASCII is spelled by its UTF-8 bytes.
\<close>

type_synonym path = "string list"

definition str_path :: "path \<Rightarrow> string" where
  "str_path p = (if p = [] then ''/'' else concat (map (\<lambda>c. ''/'' @ c) p))"

text \<open>
  What Pillow holds in memory: a canvas with what was drawn on it so far, in call order.
  A text is recorded with the font it was rendered with.  \<open>ImageFont.load_default()\<close>
  gives the one default font.
\<close>

datatype font = Default_font

datatype draw_op =
    Text "int \<times> int" string string font
  | Rectangle "int list" string nat
  | Ellipse "int list" string nat

datatype image = Image (im_mode: string) (im_size: "nat \<times> nat") (im_color: string)
  (im_drawn: "draw_op list")

datatype image_format = PNG | JPEG

text \<open>
  The \<open>date_time\<close> of a ZIP entry: year, month, day, hours, minutes, seconds.
\<close>

type_synonym date_time = "nat \<times> nat \<times> nat \<times> nat \<times> nat \<times> nat"

text \<open>
  The content of a regular file: raw bytes, a ZIP container given by its entries
  (name, \<open>date_time\<close> and data, in the order they were added), or a canvas encoded in an
  image format.
\<close>

datatype content =
    Bytes string
  | ZipArchive "(string \<times> date_time \<times> string) list"
  | Encoded image_format image

text \<open>A node is a regular file or a directory; the flag says whether it may be written.\<close>

datatype node = File bool content | Dir bool

datatype event = Printed string | Made_dir path | Wrote path

text \<open>
  The world of one run: the file system as an association list from paths to nodes, and
  the effects so far in the order they happened (lines printed, directories made, files
  opened for writing).
\<close>

record world =
  nodes :: "(path \<times> node) list"
  trace :: "event list"

definition stdout :: "world \<Rightarrow> string list" where
  "stdout w = concat (map (\<lambda>e. case e of Printed s \<Rightarrow> [s] | _ \<Rightarrow> []) (trace w))"


definition exists :: "world \<Rightarrow> path \<Rightarrow> bool" where
  "exists w p = (map_of (nodes w) p \<noteq> None)"

definition is_file :: "world \<Rightarrow> path \<Rightarrow> bool" where
  "is_file w p = (case map_of (nodes w) p of Some (File _ _) \<Rightarrow> True | _ \<Rightarrow> False)"

definition is_dir :: "world \<Rightarrow> path \<Rightarrow> bool" where
  "is_dir w p = (case map_of (nodes w) p of Some (Dir _) \<Rightarrow> True | _ \<Rightarrow> False)"

definition read_file :: "world \<Rightarrow> path \<Rightarrow> content option" where
  "read_file w p = (case map_of (nodes w) p of Some (File _ c) \<Rightarrow> Some c | _ \<Rightarrow> None)"

section \<open>Statements\<close>

text \<open>
  A statement runs in a world and either returns a value or raises, and in both cases
  leaves the world it has reached: nothing is rolled back when an exception is raised.
\<close>

type_synonym 'a prog = "world \<Rightarrow> (exn + 'a) \<times> world"

definition return :: "'a \<Rightarrow> 'a prog" where
  "return x w = (Inr x, w)"

definition raise :: "exn \<Rightarrow> 'a prog" where
  "raise e w = (Inl e, w)"

definition bind :: "'a prog \<Rightarrow> ('a \<Rightarrow> 'b prog) \<Rightarrow> 'b prog" where
  "bind m k w = (case m w of (Inl e, w') \<Rightarrow> (Inl e, w') | (Inr x, w') \<Rightarrow> k x w')"

text \<open>A block of statements: they run in order, and the first exception ends the block.\<close>

fun block :: "unit prog list \<Rightarrow> unit prog" where
  "block [] = return ()"
| "block (s # ss) = bind s (\<lambda>_. block ss)"

definition print :: "string \<Rightarrow> unit prog" where
  "print s w = (Inr (), w\<lparr>trace := trace w @ [Printed s]\<rparr>)"

subsection \<open>File-system calls\<close>

fun strerror :: "exc_class \<Rightarrow> string" where
  "strerror FileNotFoundError = ''[Errno 2] No such file or directory''"
| "strerror FileExistsError = ''[Errno 17] File exists''"
| "strerror PermissionError = ''[Errno 13] Permission denied''"
| "strerror IsADirectoryError = ''[Errno 21] Is a directory''"
| "strerror NotADirectoryError = ''[Errno 20] Not a directory''"
| "strerror _ = []"

definition os_error :: "exc_class \<Rightarrow> path \<Rightarrow> exn" where
  "os_error c p = Exn c (strerror c @ '': '' @ [CHR 0x27] @ str_path p @ [CHR 0x27])"

text \<open>
  \<open>Path.mkdir(exist_ok=True)\<close>: the parent must be a directory; an existing directory
  is left as it is, an existing regular file raises \<open>FileExistsError\<close>, and a new
  directory needs a writable parent.
\<close>

definition mkdir_exist_ok :: "path \<Rightarrow> unit prog" where
  "mkdir_exist_ok p w =
     (case map_of (nodes w) (butlast p) of
        None \<Rightarrow> (Inl (os_error FileNotFoundError p), w)
      | Some (File _ _) \<Rightarrow> (Inl (os_error NotADirectoryError p), w)
      | Some (Dir pw) \<Rightarrow>
          (case map_of (nodes w) p of
             Some (Dir _) \<Rightarrow> (Inr (), w)
           | Some (File _ _) \<Rightarrow> (Inl (os_error FileExistsError p), w)
           | None \<Rightarrow>
               if pw
               then (Inr (), w\<lparr>nodes := AList.update p (Dir True) (nodes w),
                                trace := trace w @ [Made_dir p]\<rparr>)
               else (Inl (os_error PermissionError p), w)))"

text \<open>
  Opening \<open>p\<close> for writing (mode \<open>'w'\<close>), writing the whole content and closing: an
  existing writable file is truncated and replaced, a missing file is created when the
  parent is a writable directory.  A file that was written is writable afterwards.
\<close>

definition write_file :: "path \<Rightarrow> content \<Rightarrow> unit prog" where
  "write_file p c w =
     (case map_of (nodes w) (butlast p) of
        None \<Rightarrow> (Inl (os_error FileNotFoundError p), w)
      | Some (File _ _) \<Rightarrow> (Inl (os_error NotADirectoryError p), w)
      | Some (Dir pw) \<Rightarrow>
          (case map_of (nodes w) p of
             Some (Dir _) \<Rightarrow> (Inl (os_error IsADirectoryError p), w)
           | Some (File fw _) \<Rightarrow>
               if fw
               then (Inr (), w\<lparr>nodes := AList.update p (File True c) (nodes w),
                                trace := trace w @ [Wrote p]\<rparr>)
               else (Inl (os_error PermissionError p), w)
           | None \<Rightarrow>
               if pw
               then (Inr (), w\<lparr>nodes := AList.update p (File True c) (nodes w),
                                trace := trace w @ [Wrote p]\<rparr>)
               else (Inl (os_error PermissionError p), w)))"

text \<open>
  \<open>write_text\<close> and \<open>write_bytes\<close>.  Every text the script writes is ASCII, and text
  mode is taken without newline translation, so the bytes written are the characters.
\<close>

definition write_text :: "path \<Rightarrow> string \<Rightarrow> unit prog" where
  "write_text p s = write_file p (Bytes s)"

definition write_bytes :: "path \<Rightarrow> string \<Rightarrow> unit prog" where
  "write_bytes p b = write_file p (Bytes b)"

text \<open>
  \<open>Path.glob("*")\<close>: every entry directly inside the directory, whatever its kind
  (pathlib's \<open>*\<close> also matches names that start with a dot).
\<close>

definition glob_star :: "world \<Rightarrow> path \<Rightarrow> path list" where
  "glob_star w d = remdups (filter (\<lambda>p. p \<noteq> [] \<and> butlast p = d) (map fst (nodes w)))"

section \<open>Text files\<close>

definition readme_text :: string where
  "readme_text =
   ''\<newline>'' @
   ''File Organizer Test Document\<newline>'' @
   ''===========================\<newline>'' @
   ''\<newline>'' @
   ''This is a test document for the File Organizer Pro.\<newline>'' @
   ''It should be moved to the Documents folder.\<newline>'' @
   ''\<newline>'' @
   ''Features tested:\<newline>'' @
   ''- Text file organization\<newline>'' @
   ''- Document categorization\<newline>'' @
   ''- File moving operations\<newline>'' @
   ''\<newline>'' @
   ''Author: Darius04-ux\<newline>''"

definition notes_text :: string where
  "notes_text =
   ''\<newline>'' @
   ''Project Notes\<newline>'' @
   ''=============\<newline>'' @
   ''\<newline>'' @
   ''1. File Organizer working perfectly\<newline>'' @
   ''2. GUI interface responsive\<newline>'' @
   ''3. Logging system operational\<newline>'' @
   ''4. Undo functionality tested\<newline>'' @
   ''\<newline>'' @
   ''Next steps:\<newline>'' @
   ''- Add more file types\<newline>'' @
   ''- Improve UI design\<newline>'' @
   ''- Add batch processing\<newline>''"

definition text_marker :: string where
  "text_marker = [CHR 0xF0, CHR 0x9F, CHR 0x93, CHR 0x9D] @ '' Created text files''"

definition create_text_files :: "path \<Rightarrow> unit prog" where
  "create_text_files folder =
     block [
       write_text (folder @ [''readme.txt'']) readme_text,
       write_text (folder @ [''notes.txt'']) notes_text,
       print text_marker]"

section \<open>The environment of a run\<close>

text \<open>
  What a run of the script finds: \<open>Path.home()\<close>; whether the import of Pillow
  succeeded; what the \<open>n\<close>-th call of \<open>ImageFont.load_default()\<close> in the run does (calls
  are counted from 0): it returns the font (\<open>Inr\<close>) or raises an \<open>IOError\<close> with the
  given text (\<open>Inl\<close>); and the local time that the \<open>n\<close>-th reading of the clock in the run
  gives.
\<close>

record env =
  home :: path
  PILLOW_AVAILABLE :: bool
  load_default :: "nat \<Rightarrow> string + font"
  clock :: "nat \<Rightarrow> date_time"

section \<open>Image files\<close>

definition Image_new :: "string \<Rightarrow> nat \<times> nat \<Rightarrow> string \<Rightarrow> image" where
  "Image_new m sz col = Image m sz col []"

text \<open>
  An \<open>ImageDraw\<close> object: the canvas it draws on and its own font, which it loads when a
  text is first drawn without a font.
\<close>

record ImageDraw =
  im :: image
  own_font :: "font option"

definition Draw :: "image \<Rightarrow> ImageDraw" where
  "Draw img = \<lparr>im = img, own_font = None\<rparr>"

definition paint :: "draw_op \<Rightarrow> ImageDraw \<Rightarrow> ImageDraw" where
  "paint d dr =
     dr\<lparr>im := Image (im_mode (im dr)) (im_size (im dr)) (im_color (im dr))
                  (im_drawn (im dr) @ [d])\<rparr>"

text \<open>
  Drawing runs in memory.  It can call \<open>load_default\<close>, so a drawing call takes the
  number of calls of \<open>load_default\<close> made so far in the run and gives the exception it
  raises, or its value with the new number of calls.
\<close>

type_synonym 'a pil = "nat \<Rightarrow> exn + ('a \<times> nat)"

definition pil_bind :: "'a pil \<Rightarrow> ('a \<Rightarrow> 'b pil) \<Rightarrow> 'b pil" where
  "pil_bind m k n = (case m n of Inl ex \<Rightarrow> Inl ex | Inr (x, n') \<Rightarrow> k x n')"

definition ImageFont_load_default :: "env \<Rightarrow> font pil" where
  "ImageFont_load_default e n =
     (case load_default e n of
        Inl msg \<Rightarrow> Inl (Exn OSError msg)
      | Inr f \<Rightarrow> Inr (f, Suc n))"

text \<open>
  \<open>ImageDraw.getfont()\<close>: the object's own font; when it has none yet, it calls
  \<open>ImageFont.load_default()\<close> and keeps the result.
\<close>

definition getfont :: "env \<Rightarrow> ImageDraw \<Rightarrow> (font \<times> ImageDraw) pil" where
  "getfont e dr n =
     (case own_font dr of
        Some f \<Rightarrow> Inr ((f, dr), n)
      | None \<Rightarrow>
          (case ImageFont_load_default e n of
             Inl ex \<Rightarrow> Inl ex
           | Inr (f, n') \<Rightarrow> Inr ((f, dr\<lparr>own_font := Some f\<rparr>), n')))"

text \<open>
  \<open>draw.text(xy, text, fill=fill, font=font)\<close>: with \<open>font=None\<close> Pillow renders the
  text with the font that \<open>getfont()\<close> gives.
\<close>

definition draw_text ::
  "env \<Rightarrow> int \<times> int \<Rightarrow> string \<Rightarrow> string \<Rightarrow> font option \<Rightarrow> ImageDraw \<Rightarrow> ImageDraw pil" where
  "draw_text e xy s fill fnt dr n =
     (case fnt of
        Some f \<Rightarrow> Inr (paint (Text xy s fill f) dr, n)
      | None \<Rightarrow>
          (case getfont e dr n of
             Inl ex \<Rightarrow> Inl ex
           | Inr ((f, dr'), n') \<Rightarrow> Inr (paint (Text xy s fill f) dr', n')))"

definition draw_rectangle :: "int list \<Rightarrow> string \<Rightarrow> nat \<Rightarrow> ImageDraw \<Rightarrow> ImageDraw pil" where
  "draw_rectangle xy outline width dr n = Inr (paint (Rectangle xy outline width) dr, n)"

definition draw_ellipse :: "int list \<Rightarrow> string \<Rightarrow> nat \<Rightarrow> ImageDraw \<Rightarrow> ImageDraw pil" where
  "draw_ellipse xy outline width dr n = Inr (paint (Ellipse xy outline width) dr, n)"

text \<open>
  \<open>img.save(path)\<close> and \<open>img.save(path, "JPEG")\<close>: the canvas is encoded in the format
  (for the first call Pillow takes it from the extension \<open>.png\<close>) and written to the path.
\<close>

definition save :: "image \<Rightarrow> path \<Rightarrow> image_format \<Rightarrow> unit prog" where
  "save img p fmt = write_file p (Encoded fmt img)"

definition pillow_warning :: string where
  "pillow_warning = [CHR 0xE2, CHR 0x9A, CHR 0xA0, CHR 0xEF, CHR 0xB8, CHR 0x8F] @
     ''  Pillow (PIL) not available, creating placeholder image files.''"

definition image_marker :: string where
  "image_marker = [CHR 0xF0, CHR 0x9F, CHR 0x96, CHR 0xBC, CHR 0xEF, CHR 0xB8, CHR 0x8F] @
     ''  Created image files''"

text \<open>
  The drawing calls on the first canvas, from \<open>Image.new\<close> to \<open>draw.ellipse\<close>, and those
  on the second canvas, with the \<open>font\<close> that the \<open>try\<close> statement left.
\<close>

definition draw_sample :: "env \<Rightarrow> font option \<Rightarrow> image pil" where
  "draw_sample e fnt =
     pil_bind (draw_text e (50, 100) ''Test Image'' ''darkblue'' fnt
                 (Draw (Image_new ''RGB'' (400, 300) ''lightblue''))) (\<lambda>dr.
     pil_bind (draw_text e (50, 130) ''File Organizer Pro'' ''darkblue'' fnt dr) (\<lambda>dr.
     pil_bind (draw_text e (50, 160) ''Sample PNG File'' ''darkblue'' fnt dr) (\<lambda>dr.
     pil_bind (draw_rectangle [50, 200, 150, 250] ''red'' 3 dr) (\<lambda>dr.
     pil_bind (draw_ellipse [200, 200, 300, 250] ''green'' 3 dr) (\<lambda>dr n.
     Inr (im dr, n))))))"

definition draw_photo :: "env \<Rightarrow> font option \<Rightarrow> image pil" where
  "draw_photo e fnt =
     pil_bind (draw_text e (50, 80) ''JPEG Test File'' ''darkgreen'' fnt
                 (Draw (Image_new ''RGB'' (300, 200) ''lightgreen''))) (\<lambda>dr.
     pil_bind (draw_text e (50, 110) ''For File Organizer'' ''darkgreen'' fnt dr) (\<lambda>dr n.
     Inr (im dr, n)))"

text \<open>
  The builder.  With Pillow, the \<open>try\<close> statement makes the first call of
  \<open>load_default\<close> and leaves \<open>font = None\<close> when it raises \<open>IOError\<close>; an exception of a
  drawing call is not caught.
\<close>

definition create_image_files :: "env \<Rightarrow> path \<Rightarrow> unit prog" where
  "create_image_files e folder =
     (if \<not> PILLOW_AVAILABLE e then
        block [
          print pillow_warning,
          write_bytes (folder @ [''sample_image.png'']) ''PNG placeholder'',
          write_bytes (folder @ [''test_photo.jpg'']) ''JPEG placeholder'']
      else
        let fnt = (case load_default e 0 of Inr f \<Rightarrow> Some f | Inl _ \<Rightarrow> None) in
        case draw_sample e fnt 1 of
          Inl ex \<Rightarrow> raise ex
        | Inr (img, n) \<Rightarrow>
            bind (save img (folder @ [''sample_image.png'']) PNG) (\<lambda>_.
              case draw_photo e fnt n of
                Inl ex \<Rightarrow> raise ex
              | Inr (img2, _) \<Rightarrow>
                  block [
                    save img2 (folder @ [''test_photo.jpg'']) JPEG,
                    print image_marker]))"

section \<open>Document files\<close>

definition pdf_content :: string where
  "pdf_content =
   ''\<newline>'' @
   ''%PDF-1.4 (This is a fake PDF for testing)\<newline>'' @
   ''File Organizer Pro - Test Document\<newline>'' @
   ''==================================\<newline>'' @
   ''\<newline>'' @
   ''This file simulates a PDF document.\<newline>'' @
   ''In real usage, this would be a proper PDF file.\<newline>'' @
   ''\<newline>'' @
   ''The File Organizer should move this to Documents folder.\<newline>'' @
   ''\<newline>'' @
   ''Test completed successfully!\<newline>''"

definition rtf_content :: string where
  "rtf_content =
   ''{'' @ [CHR 0x5C] @ ''rtf1'' @ [CHR 0x5C] @ ''ansi'' @ [CHR 0x5C] @ ''deff0 {'' @ [CHR 0x5C] @ ''fonttbl {'' @ [CHR 0x5C] @ ''f0 Times New Roman;}}\<newline>'' @
   [CHR 0x5C] @ ''f0'' @ [CHR 0x5C] @ ''fs24 File Organizer Test RTF Document'' @ [CHR 0x5C] @ ''par\<newline>'' @
   [CHR 0x5C] @ ''par\<newline>'' @
   ''This is a Rich Text Format document for testing.'' @ [CHR 0x5C] @ ''par\<newline>'' @
   [CHR 0x5C] @ ''par\<newline>'' @
   ''Features:'' @ [CHR 0x5C] @ ''par\<newline>'' @
   ''- RTF formatting'' @ [CHR 0x5C] @ ''par\<newline>'' @
   ''- Document organization'' @ [CHR 0x5C] @ ''par\<newline>'' @
   ''- File type detection'' @ [CHR 0x5C] @ ''par\<newline>'' @
   [CHR 0x5C] @ ''par\<newline>'' @
   ''Author: Darius04-ux'' @ [CHR 0x5C] @ ''par\<newline>'' @
   ''}''"

definition document_marker :: string where
  "document_marker = [CHR 0xF0, CHR 0x9F, CHR 0x93, CHR 0x84] @ '' Created document files''"

definition create_document_files :: "path \<Rightarrow> unit prog" where
  "create_document_files folder =
     block [
       write_text (folder @ [''test_document.pdf'']) pdf_content,
       write_text (folder @ [''report.rtf'']) rtf_content,
       print document_marker]"

section \<open>Archive files\<close>

text \<open>
  \<open>zipfile.ZipFile(p, 'w')\<close> opens \<open>p\<close> for writing, which truncates it: the archive
  starts with no entry.  \<open>writestr\<close> adds one entry after those the open archive holds
  and stamps it with the local time of the call: the \<open>n\<close>-th entry written in the run
  takes the \<open>n\<close>-th reading of the clock.  Leaving the \<open>with\<close> block closes the archive.
\<close>

definition ZipFile_w :: "path \<Rightarrow> unit prog" where
  "ZipFile_w p = write_file p (ZipArchive [])"

definition zip_entries :: "world \<Rightarrow> path \<Rightarrow> (string \<times> date_time \<times> string) list" where
  "zip_entries w p = (case read_file w p of Some (ZipArchive es) \<Rightarrow> es | _ \<Rightarrow> [])"

definition writestr :: "env \<Rightarrow> nat \<Rightarrow> path \<Rightarrow> string \<Rightarrow> string \<Rightarrow> unit prog" where
  "writestr e n p arcname data w =
     (Inr (), w\<lparr>nodes :=
        AList.update p
          (File True (ZipArchive (zip_entries w p @ [(arcname, clock e n, data)]))) (nodes w)\<rparr>)"

definition archive_marker :: string where
  "archive_marker = [CHR 0xF0, CHR 0x9F, CHR 0x93, CHR 0xA6] @ '' Created archive files''"

definition create_archive_files :: "env \<Rightarrow> path \<Rightarrow> unit prog" where
  \<open>create_archive_files e folder =
     (let zip_path = folder @ [''test_archive.zip''] in
      block [
        ZipFile_w zip_path,
        writestr e 0 zip_path ''readme.txt'' ''This is content inside the ZIP file'',
        writestr e 1 zip_path ''data.json'' ''{"test": "data", "file": "organizer"}'',
        writestr e 2 zip_path ''folder/nested_file.txt'' ''Nested file content'',
        write_bytes (folder @ [''backup.rar'']) ''RAR archive placeholder for testing'',
        print archive_marker])\<close>

section \<open>Code files\<close>

definition python_code :: string where
  \<open>python_code =
   ''#!/usr/bin/env python3\<newline>'' @
   ''"""\<newline>'' @
   ''Sample Python script for File Organizer testing\<newline>'' @
   ''"""\<newline>'' @
   ''\<newline>'' @
   ''def hello_world():\<newline>'' @
   ''    print("Hello from File Organizer test!")\<newline>'' @
   ''    print("This Python file should go to Code folder")\<newline>'' @
   ''\<newline>'' @
   ''if __name__ == "__main__":\<newline>'' @
   ''    hello_world()\<newline>''\<close>

definition js_code :: string where
  \<open>js_code =
   ''// Sample JavaScript file for testing\<newline>'' @
   ''console.log("File Organizer Pro - JavaScript Test");\<newline>'' @
   ''\<newline>'' @
   ''function organizeFiles() {\<newline>'' @
   ''    console.log("This JS file should go to Code folder");\<newline>'' @
   ''    return "File organization complete!";\<newline>'' @
   ''}\<newline>'' @
   ''\<newline>'' @
   ''organizeFiles();\<newline>''\<close>

definition html_code :: string where
  \<open>html_code =
   ''<!DOCTYPE html>\<newline>'' @
   ''<html>\<newline>'' @
   ''<head>\<newline>'' @
   ''    <title>File Organizer Test</title>\<newline>'' @
   ''</head>\<newline>'' @
   ''<body>\<newline>'' @
   ''    <h1>File Organizer Pro</h1>\<newline>'' @
   ''    <p>This HTML file should be moved to Code folder</p>\<newline>'' @
   ''    <p>Testing file organization...</p>\<newline>'' @
   ''</body>\<newline>'' @
   ''</html>\<newline>''\<close>

definition code_marker :: string where
  "code_marker = [CHR 0xF0, CHR 0x9F, CHR 0x92, CHR 0xBB] @ '' Created code files''"

definition create_code_files :: "path \<Rightarrow> unit prog" where
  "create_code_files folder =
     block [
       write_text (folder @ [''sample_script.py'']) python_code,
       write_text (folder @ [''app.js'']) js_code,
       write_text (folder @ [''index.html'']) html_code,
       print code_marker]"

section \<open>JSON\<close>

text \<open>
  The values that \<open>json_data\<close> is built from: strings, lists and dictionaries (in
  insertion order).  \<open>dumps obj indent\<close> is \<open>json.dumps(obj, indent=indent)\<close> on them:
  every item on its own line, indented by \<open>indent\<close> spaces per nesting level, items
  separated by a comma and a key from its value by a colon and a space.  In a string the
  quote, the backslash, newline, carriage return and tab are escaped; the strings of
  \<open>json_data\<close> hold none of the other characters that \<open>json.dumps\<close> escapes.
\<close>

datatype json = JString string | JArray "json list" | JObject "(string \<times> json) list"

definition escape_char :: "char \<Rightarrow> string" where
  "escape_char c =
     (if c = CHR 0x22 then [CHR 0x5C, CHR 0x22]
      else if c = CHR 0x5C then [CHR 0x5C, CHR 0x5C]
      else if c = CHR 0x0A then [CHR 0x5C, CHR ''n'']
      else if c = CHR 0x0D then [CHR 0x5C, CHR ''r'']
      else if c = CHR 0x09 then [CHR 0x5C, CHR ''t'']
      else [c])"

definition encode_string :: "string \<Rightarrow> string" where
  "encode_string s = [CHR 0x22] @ concat (map escape_char s) @ [CHR 0x22]"

definition newline_indent :: "nat \<Rightarrow> nat \<Rightarrow> string" where
  "newline_indent indent level = CHR 0x0A # replicate (indent * level) CHR '' ''"

fun str_join :: "'a list \<Rightarrow> 'a list list \<Rightarrow> 'a list" where
  "str_join sep [] = []"
| "str_join sep [x] = x"
| "str_join sep (x # y # ys) = x @ sep @ str_join sep (y # ys)"

fun dumps_at :: "nat \<Rightarrow> nat \<Rightarrow> json \<Rightarrow> string" where
  "dumps_at indent level (JString s) = encode_string s"
| "dumps_at indent level (JArray xs) =
     (if xs = [] then ''[]''
      else ''['' @ newline_indent indent (Suc level) @
           str_join ('','' @ newline_indent indent (Suc level))
             (map (dumps_at indent (Suc level)) xs) @
           newline_indent indent level @ '']'')"
| "dumps_at indent level (JObject kvs) =
     (if kvs = [] then ''{}''
      else ''{'' @ newline_indent indent (Suc level) @
           str_join ('','' @ newline_indent indent (Suc level))
             (map (\<lambda>kv. encode_string (fst kv) @ '': '' @ dumps_at indent (Suc level) (snd kv)) kvs) @
           newline_indent indent level @ ''}'')"

definition dumps :: "json \<Rightarrow> nat \<Rightarrow> string" where
  "dumps obj indent = dumps_at indent 0 obj"

text \<open>
  The reader's side, \<open>json.loads\<close> on the same values: white space is skipped between
  tokens, a string ends at the first quote that is not escaped, and the whole text must
  be one value.  The fuel bounds the nesting by the length of the text.
\<close>

definition is_ws :: "char \<Rightarrow> bool" where
  "is_ws c = (c = CHR '' '' \<or> c = CHR 0x0A \<or> c = CHR 0x0D \<or> c = CHR 0x09)"

definition skip_ws :: "string \<Rightarrow> string" where
  "skip_ws s = dropWhile is_ws s"

definition unescape :: "char \<Rightarrow> char option" where
  "unescape c =
     (if c = CHR 0x22 then Some (CHR 0x22)
      else if c = CHR 0x5C then Some (CHR 0x5C)
      else if c = CHR ''/'' then Some (CHR ''/'')
      else if c = CHR ''n'' then Some (CHR 0x0A)
      else if c = CHR ''r'' then Some (CHR 0x0D)
      else if c = CHR ''t'' then Some (CHR 0x09)
      else None)"

fun scan_string :: "string \<Rightarrow> (string \<times> string) option" where
  "scan_string [] = None"
| "scan_string (c # cs) =
     (if c = CHR 0x22 then Some ([], cs)
      else if c = CHR 0x5C then
        (case cs of
           [] \<Rightarrow> None
         | e # cs' \<Rightarrow>
             (case unescape e of
                None \<Rightarrow> None
              | Some d \<Rightarrow> map_option (\<lambda>(s, r). (d # s, r)) (scan_string cs')))
      else map_option (\<lambda>(s, r). (c # s, r)) (scan_string cs))"

fun parse_value :: "nat \<Rightarrow> string \<Rightarrow> (json \<times> string) option"
  and parse_elements :: "nat \<Rightarrow> string \<Rightarrow> (json list \<times> string) option"
  and parse_members :: "nat \<Rightarrow> string \<Rightarrow> ((string \<times> json) list \<times> string) option"
where
  "parse_value 0 s = None"
| "parse_value (Suc n) s =
     (case skip_ws s of
        [] \<Rightarrow> None
      | c # r \<Rightarrow>
          if c = CHR 0x22 then map_option (\<lambda>(x, r'). (JString x, r')) (scan_string r)
          else if c = CHR ''['' then
            (case skip_ws r of
               [] \<Rightarrow> None
             | c' # r' \<Rightarrow>
                 if c' = CHR '']'' then Some (JArray [], r')
                 else map_option (\<lambda>(xs, r''). (JArray xs, r'')) (parse_elements n r))
          else if c = CHR ''{'' then
            (case skip_ws r of
               [] \<Rightarrow> None
             | c' # r' \<Rightarrow>
                 if c' = CHR ''}'' then Some (JObject [], r')
                 else map_option (\<lambda>(kvs, r''). (JObject kvs, r'')) (parse_members n r))
          else None)"
| "parse_elements 0 s = None"
| "parse_elements (Suc n) s =
     (case parse_value n s of
        None \<Rightarrow> None
      | Some (x, r) \<Rightarrow>
          (case skip_ws r of
             [] \<Rightarrow> None
           | c # r' \<Rightarrow>
               if c = CHR '','' then map_option (\<lambda>(xs, r''). (x # xs, r'')) (parse_elements n r')
               else if c = CHR '']'' then Some ([x], r')
               else None))"
| "parse_members 0 s = None"
| "parse_members (Suc n) s =
     (case skip_ws s of
        [] \<Rightarrow> None
      | q # r0 \<Rightarrow>
          if q \<noteq> CHR 0x22 then None
          else
            (case scan_string r0 of
               None \<Rightarrow> None
             | Some (k, r1) \<Rightarrow>
                 (case skip_ws r1 of
                    [] \<Rightarrow> None
                  | c # r2 \<Rightarrow>
                      if c \<noteq> CHR '':'' then None
                      else
                        (case parse_value n r2 of
                           None \<Rightarrow> None
                         | Some (v, r3) \<Rightarrow>
                             (case skip_ws r3 of
                                [] \<Rightarrow> None
                              | c' # r4 \<Rightarrow>
                                  if c' = CHR '','' then
                                    map_option (\<lambda>(kvs, r''). ((k, v) # kvs, r'')) (parse_members n r4)
                                  else if c' = CHR ''}'' then Some ([(k, v)], r4)
                                  else None)))))"

definition loads :: "string \<Rightarrow> json option" where
  "loads s =
     (case parse_value (Suc (length s)) s of
        None \<Rightarrow> None
      | Some (v, r) \<Rightarrow> if skip_ws r = [] then Some v else None)"

section \<open>Other files\<close>

definition json_data :: json where
  "json_data = JObject [
     (''app_name'', JString ''File Organizer Pro''),
     (''version'', JString ''1.0''),
     (''author'', JString ''Darius04-ux''),
     (''test_files'', JArray [
        JString ''readme.txt'',
        JString ''sample_image.png'',
        JString ''test_document.pdf'']),
     (''features'', JArray [
        JString ''File organization'',
        JString ''GUI interface'',
        JString ''Undo functionality'',
        JString ''Logging system''])]"

definition xml_content :: string where
  \<open>xml_content =
   ''<?xml version="1.0" encoding="UTF-8"?>\<newline>'' @
   ''<fileorganizer>\<newline>'' @
   ''    <name>File Organizer Pro</name>\<newline>'' @
   ''    <author>Darius04-ux</author>\<newline>'' @
   ''    <description>Test XML file for file organization</description>\<newline>'' @
   ''    <files>\<newline>'' @
   ''        <file type="image">sample_image.png</file>\<newline>'' @
   ''        <file type="document">test_document.pdf</file>\<newline>'' @
   ''        <file type="archive">test_archive.zip</file>\<newline>'' @
   ''    </files>\<newline>'' @
   ''</fileorganizer>\<newline>''\<close>

definition log_content :: string where
  "log_content =
   ''2025-01-01 10:00:00 - INFO - File Organizer started\<newline>'' @
   ''2025-01-01 10:00:01 - INFO - Scanning folder for files\<newline>'' @
   ''2025-01-01 10:00:02 - INFO - Found 15 files to organize\<newline>'' @
   ''2025-01-01 10:00:03 - INFO - Created Images folder\<newline>'' @
   ''2025-01-01 10:00:04 - INFO - Moved sample_image.png to Images/\<newline>'' @
   ''2025-01-01 10:00:05 - INFO - Created Documents folder\<newline>'' @
   ''2025-01-01 10:00:06 - INFO - Moved test_document.pdf to Documents/\<newline>'' @
   ''2025-01-01 10:00:07 - INFO - Organization completed successfully\<newline>''"

definition other_marker :: string where
  "other_marker = [CHR 0xF0, CHR 0x9F, CHR 0x93, CHR 0x8B] @ '' Created other files''"

definition create_other_files :: "path \<Rightarrow> unit prog" where
  "create_other_files folder =
     block [
       write_text (folder @ [''config.json'']) (dumps json_data 2),
       write_text (folder @ [''data.xml'']) xml_content,
       write_text (folder @ [''organizer.log'']) log_content,
       print other_marker]"

section \<open>The orchestrator\<close>

text \<open>Decimal digits of a number, as an f-string prints it.\<close>

function str_nat :: "nat \<Rightarrow> string" where
  "str_nat n =
     (if n < 10 then [''0123456789'' ! n]
      else str_nat (n div 10) @ [''0123456789'' ! (n mod 10)])"
  by pat_completeness auto
termination
  by (relation "measure id") auto

declare str_nat.simps [simp del]

definition not_found_text :: string where
  "not_found_text =
     ''Nie znaleziono folderu Desktop ani Pulpit w katalogu domowym u'' @
     [CHR 0xC5, CHR 0xBC] @ ''ytkownika.''"

text \<open>
  The first lines of \<open>create_test_files\<close>: \<open>Desktop\<close> under the home directory if it
  exists, else \<open>Pulpit\<close> if that exists, else \<open>FileNotFoundError\<close>.
\<close>

definition desktop_dir :: "env \<Rightarrow> path prog" where
  "desktop_dir e w =
     (if exists w (home e @ [''Desktop'']) then return (home e @ [''Desktop'']) w
      else if exists w (home e @ [''Pulpit'']) then return (home e @ [''Pulpit'']) w
      else raise (Exn FileNotFoundError not_found_text) w)"

definition creating_text :: string where
  "creating_text = [CHR 0xF0, CHR 0x9F, CHR 0x93, CHR 0x81] @ '' Creating test files in: ''"

definition success_text :: string where
  "success_text = [CHR 0xE2, CHR 0x9C, CHR 0x85] @ '' Test files created successfully!''"

definition location_text :: string where
  "location_text = [CHR 0xF0, CHR 0x9F, CHR 0x93, CHR 0x82] @ '' Location: ''"

definition created_count_text :: "nat \<Rightarrow> string" where
  "created_count_text n =
     ''\<newline>'' @ [CHR 0xF0, CHR 0x9F, CHR 0x93, CHR 0x8B] @ '' Created '' @ str_nat n @ '' files:''"

definition bullet_text :: "string \<Rightarrow> string" where
  "bullet_text name = ''   '' @ [CHR 0xE2, CHR 0x80, CHR 0xA2] @ '' '' @ name"

text \<open>The loop over the sorted entries: the name of each regular file is printed.\<close>

fun print_files :: "path list \<Rightarrow> unit prog" where
  "print_files [] w = return () w"
| "print_files (file # rest) w =
     (if is_file w file
      then bind (print (bullet_text (last file))) (\<lambda>_. print_files rest) w
      else print_files rest w)"

definition list_created :: "path \<Rightarrow> unit prog" where
  "list_created test_folder w =
     (let files = glob_star w test_folder in
      block [
        print (created_count_text (length files)),
        print_files (sort files)] w)"

text \<open>
  The rest of \<open>create_test_files\<close>, from the line that names \<open>test_folder\<close> on, for the
  desktop directory that was found.
\<close>

definition populate :: "env \<Rightarrow> path \<Rightarrow> unit prog" where
  "populate e desktop =
     (let test_folder = desktop @ [''test_files''] in
      block [
        mkdir_exist_ok test_folder,
        print (creating_text @ str_path test_folder),
        create_text_files test_folder,
        create_image_files e test_folder,
        create_document_files test_folder,
        create_archive_files e test_folder,
        create_code_files test_folder,
        create_other_files test_folder,
        print success_text,
        print (location_text @ str_path test_folder),
        list_created test_folder])"

definition create_test_files :: "env \<Rightarrow> unit prog" where
  "create_test_files e = bind (desktop_dir e) (populate e)"

section \<open>The entry point\<close>

text \<open>
  How the process ends: it runs to the end of the script, or an exception that nothing
  caught ends it with a traceback and a failure exit code.
\<close>

datatype outcome = Exits_normally | Uncaught exn

definition banner_text :: string where
  "banner_text =
     [CHR 0xF0, CHR 0x9F, CHR 0x9A, CHR 0x80] @ '' File Organizer Pro - Test Files Creator''"

definition all_created_text :: string where
  "all_created_text =
     ''\<newline>'' @ [CHR 0xE2, CHR 0x9C, CHR 0x85] @ '' All test files created successfully!''"

definition now_test_text :: string where
  "now_test_text =
     [CHR 0xF0, CHR 0x9F, CHR 0x8E, CHR 0xAF] @
     '' Now you can test the File Organizer with these files!''"

definition error_text :: "exn \<Rightarrow> string" where
  "error_text e = [CHR 0xE2, CHR 0x9D, CHR 0x8C] @ '' Error creating test files: '' @ str e"

definition hint_text :: string where
  "hint_text =
     [CHR 0xF0, CHR 0x9F, CHR 0x92, CHR 0xA1] @
     '' Try running as administrator if you get permission errors''"

text \<open>
  The \<open>__main__\<close> block: two banner lines, then the \<open>try\<close> body; \<open>except Exception\<close>
  catches what is below \<open>Exception\<close> and prints the error line and the hint.
\<close>

definition main :: "env \<Rightarrow> world \<Rightarrow> outcome \<times> world" where
  "main e w =
     (let w1 = snd (block [print banner_text, print (replicate 50 (CHR ''=''))] w) in
      case block [create_test_files e, print all_created_text, print now_test_text] w1 of
        (Inr _, w2) \<Rightarrow> (Exits_normally, w2)
      | (Inl ex, w2) \<Rightarrow>
          if issubclass_Exception (cls ex)
          then (Exits_normally, snd (block [print (error_text ex), print hint_text] w2))
          else (Uncaught ex, w2))"

section \<open>Scripts, preconditions and concrete worlds\<close>

text \<open>
  Straight-line scripts.  Each builder comes down to a fixed sequence of printed lines,
  file writes and, where a drawing call fails, the exception that ends it; as a list of
  actions it can be handled by induction.  \<open>step\<close> is the statement an action stands
  for, \<open>events\<close> the events that a script without \<open>Raise\<close> leaves in the trace when all
  its writes succeed, \<open>targets\<close> the paths a script writes, in order, and \<open>raises\<close> the
  exceptions it holds.
\<close>

datatype action = Say string | Put path content | Raise exn

fun step :: "action \<Rightarrow> unit prog" where
  "step (Say s) = print s"
| "step (Put p c) = write_file p c"
| "step (Raise ex) = raise ex"

fun events :: "action list \<Rightarrow> event list" where
  "events [] = []"
| "events (Say s # as) = Printed s # events as"
| "events (Put p c # as) = Wrote p # events as"
| "events (Raise ex # as) = events as"

fun targets :: "action list \<Rightarrow> path list" where
  "targets [] = []"
| "targets (Say s # as) = targets as"
| "targets (Put p c # as) = p # targets as"
| "targets (Raise ex # as) = targets as"

fun raises :: "action list \<Rightarrow> exn list" where
  "raises [] = []"
| "raises (Say s # as) = raises as"
| "raises (Put p c # as) = raises as"
| "raises (Raise ex # as) = ex # raises as"

text \<open>
  Whether opening \<open>p\<close> for writing succeeds in a file system: the parent is a directory,
  and \<open>p\<close> is a writable regular file, or is missing while the parent is writable.
\<close>

definition can_write :: "(path \<times> node) list \<Rightarrow> path \<Rightarrow> bool" where
  "can_write ns p =
     (case map_of ns (butlast p) of
        Some (Dir pw) \<Rightarrow>
          (case map_of ns p of
             Some (Dir _) \<Rightarrow> False
           | Some (File fw _) \<Rightarrow> fw
           | None \<Rightarrow> pw)
      | _ \<Rightarrow> False)"

text \<open>
  The file system that running a script leaves: the writes up to the first one that
  fails, or up to the first exception.
\<close>

fun effect :: "action list \<Rightarrow> (path \<times> node) list \<Rightarrow> (path \<times> node) list" where
  "effect [] ns = ns"
| "effect (Say s # as) ns = effect as ns"
| "effect (Put p c # as) ns =
     (if can_write ns p then effect as (AList.update p (File True c) ns) else ns)"
| "effect (Raise ex # as) ns = ns"

text \<open>
  The six builders as scripts, and the script of a whole run between the making of the
  subfolder and the final listing.
\<close>

definition text_script :: "path \<Rightarrow> action list" where
  "text_script folder =
     [Put (folder @ [''readme.txt'']) (Bytes readme_text),
      Put (folder @ [''notes.txt'']) (Bytes notes_text),
      Say text_marker]"

text \<open>
  The two canvases as they are when every text on them was rendered.
\<close>

definition sample_image :: image where
  "sample_image = Image ''RGB'' (400, 300) ''lightblue''
     [Text (50, 100) ''Test Image'' ''darkblue'' Default_font,
      Text (50, 130) ''File Organizer Pro'' ''darkblue'' Default_font,
      Text (50, 160) ''Sample PNG File'' ''darkblue'' Default_font,
      Rectangle [50, 200, 150, 250] ''red'' 3,
      Ellipse [200, 200, 300, 250] ''green'' 3]"

definition test_photo :: image where
  "test_photo = Image ''RGB'' (300, 200) ''lightgreen''
     [Text (50, 80) ''JPEG Test File'' ''darkgreen'' Default_font,
      Text (50, 110) ''For File Organizer'' ''darkgreen'' Default_font]"

text \<open>
  The script of the image builder.  With Pillow it depends on the calls of
  \<open>load_default\<close>: when the call of the \<open>try\<close> statement fails, the first text drawn on
  each canvas makes a further call, and the exception of that call ends the builder.
\<close>

definition image_script :: "env \<Rightarrow> path \<Rightarrow> action list" where
  "image_script e folder =
     (if \<not> PILLOW_AVAILABLE e then
        [Say pillow_warning,
         Put (folder @ [''sample_image.png'']) (Bytes ''PNG placeholder''),
         Put (folder @ [''test_photo.jpg'']) (Bytes ''JPEG placeholder'')]
      else
        case load_default e 0 of
          Inr f \<Rightarrow>
            [Put (folder @ [''sample_image.png'']) (Encoded PNG sample_image),
             Put (folder @ [''test_photo.jpg'']) (Encoded JPEG test_photo),
             Say image_marker]
        | Inl _ \<Rightarrow>
            (case load_default e 1 of
               Inl msg \<Rightarrow> [Raise (Exn OSError msg)]
             | Inr f \<Rightarrow>
                 Put (folder @ [''sample_image.png'']) (Encoded PNG sample_image) #
                 (case load_default e 2 of
                    Inl msg \<Rightarrow> [Raise (Exn OSError msg)]
                  | Inr f' \<Rightarrow>
                      [Put (folder @ [''test_photo.jpg'']) (Encoded JPEG test_photo),
                       Say image_marker])))"

definition document_script :: "path \<Rightarrow> action list" where
  "document_script folder =
     [Put (folder @ [''test_document.pdf'']) (Bytes pdf_content),
      Put (folder @ [''report.rtf'']) (Bytes rtf_content),
      Say document_marker]"

definition archive_entries :: "env \<Rightarrow> (string \<times> date_time \<times> string) list" where
  \<open>archive_entries e =
     [(''readme.txt'', clock e 0, ''This is content inside the ZIP file''),
      (''data.json'', clock e 1, ''{"test": "data", "file": "organizer"}''),
      (''folder/nested_file.txt'', clock e 2, ''Nested file content'')]\<close>

definition archive_script :: "env \<Rightarrow> path \<Rightarrow> action list" where
  "archive_script e folder =
     [Put (folder @ [''test_archive.zip'']) (ZipArchive (archive_entries e)),
      Put (folder @ [''backup.rar'']) (Bytes ''RAR archive placeholder for testing''),
      Say archive_marker]"

definition code_script :: "path \<Rightarrow> action list" where
  "code_script folder =
     [Put (folder @ [''sample_script.py'']) (Bytes python_code),
      Put (folder @ [''app.js'']) (Bytes js_code),
      Put (folder @ [''index.html'']) (Bytes html_code),
      Say code_marker]"

definition other_script :: "path \<Rightarrow> action list" where
  "other_script folder =
     [Put (folder @ [''config.json'']) (Bytes (dumps json_data 2)),
      Put (folder @ [''data.xml'']) (Bytes xml_content),
      Put (folder @ [''organizer.log'']) (Bytes log_content),
      Say other_marker]"

definition builders_script :: "env \<Rightarrow> path \<Rightarrow> action list" where
  "builders_script e folder =
     text_script folder @ image_script e folder @ document_script folder @
     archive_script e folder @ code_script folder @ other_script folder"

definition run_script :: "env \<Rightarrow> path \<Rightarrow> action list" where
  "run_script e folder =
     Say (creating_text @ str_path folder) # builders_script e folder @
     [Say success_text, Say (location_text @ str_path folder)]"

text \<open>
  The names the builders write, in the order they are written.
\<close>

definition file_names :: "string list" where
  "file_names =
     [''readme.txt'', ''notes.txt'', ''sample_image.png'', ''test_photo.jpg'',
      ''test_document.pdf'', ''report.rtf'', ''test_archive.zip'', ''backup.rar'',
      ''sample_script.py'', ''app.js'', ''index.html'',
      ''config.json'', ''data.xml'', ''organizer.log'']"

text \<open>
  Whether \<open>mkdir(exist_ok=True)\<close> of \<open>p\<close> succeeds in a file system, the file system it
  leaves and the event it adds to the trace.
\<close>

definition can_mkdir :: "(path \<times> node) list \<Rightarrow> path \<Rightarrow> bool" where
  "can_mkdir ns p =
     (case map_of ns (butlast p) of
        Some (Dir pw) \<Rightarrow>
          (case map_of ns p of
             Some (Dir _) \<Rightarrow> True
           | Some (File _ _) \<Rightarrow> False
           | None \<Rightarrow> pw)
      | _ \<Rightarrow> False)"

definition made :: "(path \<times> node) list \<Rightarrow> path \<Rightarrow> (path \<times> node) list" where
  "made ns p = (if map_of ns p = None then AList.update p (Dir True) ns else ns)"

definition made_events :: "(path \<times> node) list \<Rightarrow> path \<Rightarrow> event list" where
  "made_events ns p = (if map_of ns p = None then [Made_dir p] else [])"

text \<open>
  The desktop directory that the first lines of \<open>create_test_files\<close> find, if any.
\<close>

definition desktop_of :: "env \<Rightarrow> (path \<times> node) list \<Rightarrow> path option" where
  "desktop_of e ns =
     (if map_of ns (home e @ [''Desktop'']) \<noteq> None then Some (home e @ [''Desktop''])
      else if map_of ns (home e @ [''Pulpit'']) \<noteq> None then Some (home e @ [''Pulpit''])
      else None)"

text \<open>
  The events of the final listing: the line with the number of entries of the folder,
  then one line for each regular file among its sorted entries.
\<close>

definition listing :: "world \<Rightarrow> path \<Rightarrow> event list" where
  "listing w folder =
     Printed (created_count_text (length (glob_star w folder))) #
     map (\<lambda>file. Printed (bullet_text (last file))) (filter (is_file w) (sort (glob_star w folder)))"

text \<open>
  Whether the image builder gets the fonts it asks for: the call of \<open>load_default\<close> in
  the \<open>try\<close> statement succeeds, or else the calls that the first text on each of the two
  canvases makes both succeed.
\<close>

definition fonts_load :: "env \<Rightarrow> bool" where
  "fonts_load e =
     (case load_default e 0 of
        Inr f \<Rightarrow> True
      | Inl _ \<Rightarrow>
          (case load_default e 1 of
             Inl _ \<Rightarrow> False
           | Inr f \<Rightarrow> (case load_default e 2 of Inl _ \<Rightarrow> False | Inr f' \<Rightarrow> True)))"

text \<open>
  The precondition of a run that completes: with Pillow the fonts load, a desktop entry
  is found, the subfolder \<open>test_files\<close> is a directory or can be made, and in the file
  system with the subfolder each of the fourteen names can be written.
\<close>

definition ready :: "env \<Rightarrow> (path \<times> node) list \<Rightarrow> bool" where
  "ready e ns =
     (case desktop_of e ns of
        None \<Rightarrow> False
      | Some desktop \<Rightarrow>
          (PILLOW_AVAILABLE e \<longrightarrow> fonts_load e) \<and>
          can_mkdir ns (desktop @ [''test_files'']) \<and>
          list_all (\<lambda>name. can_write (made ns (desktop @ [''test_files'']))
                      (desktop @ [''test_files'', name])) file_names)"

text \<open>
  The world that a completed run leaves, and the file system that any run leaves,
  completed or not.
\<close>

definition finished :: "env \<Rightarrow> path \<Rightarrow> world \<Rightarrow> world" where
  "finished e desktop w =
     (let test_folder = desktop @ [''test_files''];
          ns = effect (run_script e test_folder) (made (nodes w) test_folder)
      in w\<lparr>nodes := ns,
            trace := trace w @ made_events (nodes w) test_folder @
                     events (run_script e test_folder) @
                     listing (w\<lparr>nodes := ns\<rparr>) test_folder\<rparr>)"


text \<open>
  Concrete environments and worlds: a home directory; an environment without Pillow, one
  with Pillow and its default font, one with Pillow whose default font cannot be loaded,
  and one with Pillow where only the first call of \<open>load_default\<close> fails; a world with a
  new writable \<open>Desktop\<close>, one with \<open>Pulpit\<close> only, and one with neither.  The clock of
  these environments reads 10:00:00, 10:00:01, ... on 1 January 2025; \<open>later\<close> is an
  environment five minutes after.
\<close>

definition home0 :: path where
  "home0 = [''home'', ''darius'']"

definition env_plain :: env where
  "env_plain = \<lparr>home = home0, PILLOW_AVAILABLE = False,
                 load_default = (\<lambda>n. Inr Default_font),
                 clock = (\<lambda>n. (2025, 1, 1, 10, 0, n))\<rparr>"


definition env_nofont :: env where
  "env_nofont = \<lparr>home = home0, PILLOW_AVAILABLE = True,
                  load_default = (\<lambda>n. Inl ''cannot open resource''),
                  clock = (\<lambda>n. (2025, 1, 1, 10, 0, n))\<rparr>"

definition env_retry :: env where
  "env_retry = \<lparr>home = home0, PILLOW_AVAILABLE = True,
                 load_default = (\<lambda>n. if n = 0 then Inl ''cannot open resource'' else Inr Default_font),
                 clock = (\<lambda>n. (2025, 1, 1, 10, 0, n))\<rparr>"


definition fresh_world :: world where
  "fresh_world =
     \<lparr>nodes = [([], Dir True), ([''home''], Dir True), (home0, Dir True),
               (home0 @ [''Desktop''], Dir True)],
      trace = []\<rparr>"

definition pulpit_world :: world where
  "pulpit_world =
     \<lparr>nodes = [([], Dir True), ([''home''], Dir True), (home0, Dir True),
               (home0 @ [''Pulpit''], Dir True)],
      trace = []\<rparr>"

definition bare_world :: world where
  "bare_world =
     \<lparr>nodes = [([], Dir True), ([''home''], Dir True), (home0, Dir True),
               (home0 @ [''Documents''], Dir True)],
      trace = []\<rparr>"

text \<open>
  The world after the two banner lines of the entry point.
\<close>

definition banner :: "world \<Rightarrow> world" where
  "banner w = w\<lparr>trace := trace w @ [Printed banner_text, Printed (replicate 50 (CHR ''=''))]\<rparr>"

text \<open>
  A world whose subfolder \<open>test_files\<close> exists and is not writable.
\<close>

definition readonly_world :: world where
  "readonly_world =
     \<lparr>nodes = [([], Dir True), ([''home''], Dir True), (home0, Dir True),
               (home0 @ [''Desktop''], Dir True),
               (home0 @ [''Desktop'', ''test_files''], Dir False)],
      trace = []\<rparr>"

text \<open>
  Comparing two file systems up to the times of the entries of one ZIP file.  \<open>undate\<close>
  sets the time of every entry of an archive to one fixed value and leaves every other
  content as it is; \<open>undated z ns\<close> is the file system \<open>ns\<close> with the content of the file
  at \<open>z\<close> undated, and every other entry as it is.  So \<open>undated z ns = undated z ns'\<close> says
  that \<open>ns\<close> and \<open>ns'\<close> are equal but for the entry times of the archive at \<open>z\<close>.
  \<open>undated_action\<close> does the same to the writes of a script.
\<close>

fun undate :: "content \<Rightarrow> content" where
  "undate (Bytes s) = Bytes s"
| "undate (ZipArchive es) =
     ZipArchive (map (\<lambda>(name, t, data). (name, (0, 0, 0, 0, 0, 0), data)) es)"
| "undate (Encoded fmt img) = Encoded fmt img"

fun undated_node :: "path \<Rightarrow> path \<Rightarrow> node \<Rightarrow> node" where
  "undated_node z p (File b c) = File b (if p = z then undate c else c)"
| "undated_node z p (Dir b) = Dir b"

definition undated :: "path \<Rightarrow> (path \<times> node) list \<Rightarrow> (path \<times> node) list" where
  "undated z ns = map (\<lambda>(p, n). (p, undated_node z p n)) ns"



definition organized_world :: world where
  "organized_world =
     \<lparr>nodes = [([], Dir True), ([''home''], Dir True), (home0, Dir True),
               (home0 @ [''Desktop''], Dir True),
               (home0 @ [''Desktop'', ''test_files''], Dir True),
               (home0 @ [''Desktop'', ''test_files'', ''Documents''], Dir True)],
      trace = []\<rparr>"


definition organized_names :: "string list" where
  "organized_names =
     [''app.js'', ''backup.rar'', ''config.json'', ''data.xml'', ''index.html'', ''notes.txt'',
      ''organizer.log'', ''readme.txt'', ''report.rtf'', ''sample_image.png'',
      ''sample_script.py'', ''test_archive.zip'', ''test_document.pdf'', ''test_photo.jpg'']"

section \<open>Writes and scripts\<close>

lemma can_write_cases:
  "can_write ns p \<longleftrightarrow>
     (\<exists>pw. map_of ns (butlast p) = Some (Dir pw) \<and>
        ((\<exists>c. map_of ns p = Some (File True c)) \<or> (map_of ns p = None \<and> pw)))"
proof (cases "map_of ns (butlast p)")
  case None
  then show ?thesis by (simp add: can_write_def)
next
  case (Some n)
  show ?thesis
  proof (cases n)
    case (File fw c)
    with Some show ?thesis by (simp add: can_write_def)
  next
    case (Dir pw)
    show ?thesis
    proof (cases "map_of ns p")
      case None
      with Some Dir show ?thesis by (simp add: can_write_def)
    next
      case (Some m)
      with \<open>map_of ns (butlast p) = Some n\<close> Dir show ?thesis
        by (cases m) (simp_all add: can_write_def)
    qed
  qed
qed

lemma write_file_ok:
  assumes "can_write (nodes w) p"
  shows "write_file p c w =
     (Inr (), w\<lparr>nodes := AList.update p (File True c) (nodes w), trace := trace w @ [Wrote p]\<rparr>)"
  using assms unfolding can_write_cases
  by (auto simp: write_file_def)

lemma write_file_raises:
  "\<exists>ex. write_file p c w = (Inl ex, w) \<and> issubclass_OSError (cls ex) \<or>
        write_file p c w = (Inr (), w\<lparr>nodes := AList.update p (File True c) (nodes w), trace := trace w @ [Wrote p]\<rparr>)"
  by (simp add: write_file_def os_error_def split: option.split node.split)

lemma write_file_fails:
  assumes "\<not> can_write (nodes w) p"
  shows "\<exists>ex. write_file p c w = (Inl ex, w) \<and> issubclass_OSError (cls ex)"
proof -
  have "fst (write_file p c w) \<noteq> Inr ()"
    using assms unfolding can_write_cases
    by (auto simp: write_file_def split: option.split node.split)
  then show ?thesis using write_file_raises [of p c w] by auto
qed

lemma bind_return [simp]: "bind (return x) k = k x"
  by (rule ext) (simp add: bind_def return_def)

lemma bind_ok: "m w = (Inr x, w') \<Longrightarrow> bind m k w = k x w'"
  by (simp add: bind_def)

lemma bind_fails: "m w = (Inl ex, w') \<Longrightarrow> bind m k w = (Inl ex, w')"
  by (simp add: bind_def)

lemma bind_assoc: "bind (bind m k) h = bind m (\<lambda>x. bind (k x) h)"
  by (rule ext) (simp add: bind_def split: prod.splits sum.splits)

lemma block_append: "block (xs @ ys) = bind (block xs) (\<lambda>_. block ys)"
  by (induction xs) (simp_all add: bind_assoc)

lemma block_single: "block [s] = s"
  by (rule ext) (simp add: bind_def return_def split: prod.splits sum.splits)

lemma nodes_block_steps: "nodes (snd (block (map step as) w)) = effect as (nodes w)"
proof (induction as arbitrary: w)
  case Nil
  then show ?case by (simp add: return_def)
next
  case (Cons a as)
  show ?case
  proof (cases a)
    case (Say s)
    have "print s w = (Inr (), w\<lparr>trace := trace w @ [Printed s]\<rparr>)" by (simp add: print_def)
    then show ?thesis using Cons.IH Say by (simp add: bind_ok)
  next
    case (Put p c)
    show ?thesis
    proof (cases "can_write (nodes w) p")
      case True
      then show ?thesis using Cons.IH Put by (simp add: bind_ok [OF write_file_ok])
    next
      case False
      then obtain ex where "write_file p c w = (Inl ex, w)" using write_file_fails by blast
      then show ?thesis using False Put by (simp add: bind_fails)
    qed
  next
    case (Raise ex)
    have "bind (step (Raise ex)) (\<lambda>_. block (map step as)) w = (Inl ex, w)"
      by (simp add: bind_def raise_def)
    then show ?thesis using Raise by simp
  qed
qed



lemma events_append [simp]: "events (xs @ ys) = events xs @ events ys"
  by (induction xs rule: events.induct) simp_all

lemma raises_append [simp]: "raises (xs @ ys) = raises xs @ raises ys"
  by (induction xs rule: raises.induct) simp_all

section \<open>The builders are scripts\<close>

lemma create_text_files_script: "create_text_files folder = block (map step (text_script folder))"
  by (simp add: create_text_files_def text_script_def write_text_def)

lemma draw_sample_font: "draw_sample e (Some f) n = Inr (sample_image, n)"
  by (cases f)
     (simp add: draw_sample_def sample_image_def pil_bind_def draw_text_def draw_rectangle_def
       draw_ellipse_def paint_def Draw_def Image_new_def)

lemma draw_sample_loads:
  "load_default e n = Inr f \<Longrightarrow> draw_sample e None n = Inr (sample_image, Suc n)"
  by (cases f)
     (simp add: draw_sample_def sample_image_def pil_bind_def draw_text_def draw_rectangle_def
       draw_ellipse_def paint_def Draw_def Image_new_def getfont_def ImageFont_load_default_def)

lemma draw_sample_raises:
  "load_default e n = Inl msg \<Longrightarrow> draw_sample e None n = Inl (Exn OSError msg)"
  by (simp add: draw_sample_def pil_bind_def draw_text_def Draw_def getfont_def
      ImageFont_load_default_def)

lemma draw_photo_font: "draw_photo e (Some f) n = Inr (test_photo, n)"
  by (cases f)
     (simp add: draw_photo_def test_photo_def pil_bind_def draw_text_def paint_def Draw_def
       Image_new_def)

lemma draw_photo_loads:
  "load_default e n = Inr f \<Longrightarrow> draw_photo e None n = Inr (test_photo, Suc n)"
  by (cases f)
     (simp add: draw_photo_def test_photo_def pil_bind_def draw_text_def paint_def Draw_def
       Image_new_def getfont_def ImageFont_load_default_def)

lemma draw_photo_raises:
  "load_default e n = Inl msg \<Longrightarrow> draw_photo e None n = Inl (Exn OSError msg)"
  by (simp add: draw_photo_def pil_bind_def draw_text_def Draw_def getfont_def
      ImageFont_load_default_def)

lemma bind_raise [simp]: "bind (raise ex) k = raise ex"
  by (rule ext) (simp add: bind_def raise_def)

lemma create_image_files_script:
  "create_image_files e folder = block (map step (image_script e folder))"
proof (cases "PILLOW_AVAILABLE e")
  case False
  then show ?thesis
    by (simp add: create_image_files_def image_script_def write_bytes_def)
next
  case True
  show ?thesis
  proof (cases "load_default e 0")
    case (Inr f)
    then show ?thesis using True
      by (simp add: create_image_files_def image_script_def save_def draw_sample_font
          draw_photo_font)
  next
    case first: (Inl m0)
    show ?thesis
    proof (cases "load_default e 1")
      case (Inl m1)
      then show ?thesis using True first
        by (simp add: create_image_files_def image_script_def draw_sample_raises)
    next
      case second: (Inr f)
      then have png: "draw_sample e None (Suc 0) = Inr (sample_image, Suc (Suc 0))"
        by (simp add: draw_sample_loads)
      show ?thesis
      proof (cases "load_default e 2")
        case (Inl m2)
        then have "draw_photo e None (Suc (Suc 0)) = Inl (Exn OSError m2)"
          by (simp add: draw_photo_raises numeral_2_eq_2)
        then show ?thesis using True first second Inl png
          by (simp add: create_image_files_def image_script_def save_def)
      next
        case (Inr f')
        then have "draw_photo e None (Suc (Suc 0)) = Inr (test_photo, Suc (Suc (Suc 0)))"
          by (simp add: draw_photo_loads numeral_2_eq_2)
        then show ?thesis using True first second Inr png
          by (simp add: create_image_files_def image_script_def save_def)
      qed
    qed
  qed
qed

lemma create_document_files_script:
  "create_document_files folder = block (map step (document_script folder))"
  by (simp add: create_document_files_def document_script_def write_text_def)

lemma write_file_fails_same:
  "\<not> can_write (nodes w) p \<Longrightarrow> write_file p c w = write_file p c' w"
  unfolding can_write_cases
  by (auto simp: write_file_def split: option.split node.split)

lemma zip_block:
  "bind (ZipFile_w p) (\<lambda>_. bind (writestr e i p a x) (\<lambda>_. bind (writestr e j p b y)
     (\<lambda>_. bind (writestr e l p c z) k))) =
   bind (write_file p (ZipArchive [(a, clock e i, x), (b, clock e j, y), (c, clock e l, z)])) k"
proof (rule ext)
  fix w
  let ?es = "[(a, clock e i, x), (b, clock e j, y), (c, clock e l, z)]"
  show "bind (ZipFile_w p) (\<lambda>_. bind (writestr e i p a x) (\<lambda>_. bind (writestr e j p b y)
          (\<lambda>_. bind (writestr e l p c z) k))) w =
        bind (write_file p (ZipArchive ?es)) k w"
  proof (cases "can_write (nodes w) p")
    case True
    have "write_file p (ZipArchive []) w =
        (Inr (), w\<lparr>nodes := AList.update p (File True (ZipArchive [])) (nodes w),
                     trace := trace w @ [Wrote p]\<rparr>)"
      and "write_file p (ZipArchive ?es) w =
        (Inr (), w\<lparr>nodes := AList.update p (File True (ZipArchive ?es)) (nodes w),
                     trace := trace w @ [Wrote p]\<rparr>)"
      by (rule write_file_ok [OF True])+
    then show ?thesis
      by (simp add: ZipFile_w_def bind_def writestr_def
          zip_entries_def read_file_def AList.update_conv')
         (rule arg_cong [where f = "k ()"], simp)
  next
    case False
    obtain ex where "write_file p (ZipArchive []) w = (Inl ex, w)"
      using write_file_fails [OF False] by blast
    moreover have "write_file p (ZipArchive ?es) w = write_file p (ZipArchive []) w"
      by (rule write_file_fails_same [OF False])
    ultimately show ?thesis by (simp add: ZipFile_w_def bind_fails)
  qed
qed

lemma create_archive_files_script:
  "create_archive_files e folder = block (map step (archive_script e folder))"
  by (simp add: create_archive_files_def archive_script_def archive_entries_def write_bytes_def
      Let_def zip_block)

lemma create_code_files_script:
  "create_code_files folder = block (map step (code_script folder))"
  by (simp add: create_code_files_def code_script_def write_text_def)

lemma create_other_files_script:
  "create_other_files folder = block (map step (other_script folder))"
  by (simp add: create_other_files_def other_script_def write_text_def)

lemmas builder_scripts =
  create_text_files_script create_image_files_script create_document_files_script
  create_archive_files_script create_code_files_script create_other_files_script

lemma bind_return_right [simp]: "bind m return = m"
  by (rule ext) (simp add: bind_def return_def split: prod.splits sum.splits)

lemma populate_script:
  "populate e desktop =
     bind (mkdir_exist_ok (desktop @ [''test_files''])) (\<lambda>_.
       bind (block (map step (run_script e (desktop @ [''test_files'']))))
         (\<lambda>_. list_created (desktop @ [''test_files''])))"
proof -
  let ?tf = "desktop @ [''test_files'']"
  have "block (map step (run_script e ?tf)) =
        bind (print (creating_text @ str_path ?tf)) (\<lambda>_.
          bind (block (map step (text_script ?tf))) (\<lambda>_.
          bind (block (map step (image_script e ?tf))) (\<lambda>_.
          bind (block (map step (document_script ?tf))) (\<lambda>_.
          bind (block (map step (archive_script e ?tf))) (\<lambda>_.
          bind (block (map step (code_script ?tf))) (\<lambda>_.
          bind (block (map step (other_script ?tf))) (\<lambda>_.
          bind (print success_text) (\<lambda>_. print (location_text @ str_path ?tf)))))))))"
    by (simp add: run_script_def builders_script_def block_append bind_assoc)
  then show ?thesis
    by (simp add: populate_def Let_def builder_scripts bind_assoc block_single del: map_append)
qed

section \<open>Runs that complete\<close>

lemma can_mkdir_cases:
  "can_mkdir ns p \<longleftrightarrow>
     (\<exists>pw. map_of ns (butlast p) = Some (Dir pw) \<and>
        ((\<exists>dw. map_of ns p = Some (Dir dw)) \<or> (map_of ns p = None \<and> pw)))"
proof (cases "map_of ns (butlast p)")
  case None
  then show ?thesis by (simp add: can_mkdir_def)
next
  case (Some n)
  show ?thesis
  proof (cases n)
    case (File fw c)
    with Some show ?thesis by (simp add: can_mkdir_def)
  next
    case (Dir pw)
    show ?thesis
    proof (cases "map_of ns p")
      case None
      with Some Dir show ?thesis by (simp add: can_mkdir_def)
    next
      case (Some m)
      with \<open>map_of ns (butlast p) = Some n\<close> Dir show ?thesis
        by (cases m) (simp_all add: can_mkdir_def)
    qed
  qed
qed

lemma mkdir_ok:
  assumes "can_mkdir (nodes w) p"
  shows "mkdir_exist_ok p w =
     (Inr (), w\<lparr>nodes := made (nodes w) p, trace := trace w @ made_events (nodes w) p\<rparr>)"
  using assms unfolding can_mkdir_cases
  by (auto simp: mkdir_exist_ok_def made_def made_events_def)

lemma mkdir_fails:
  assumes "\<not> can_mkdir (nodes w) p"
  shows "\<exists>ex. mkdir_exist_ok p w = (Inl ex, w) \<and> issubclass_OSError (cls ex)"
proof -
  have a: "fst (mkdir_exist_ok p w) \<noteq> Inr ()"
    using assms unfolding can_mkdir_cases
    by (auto simp: mkdir_exist_ok_def split: option.split node.split)
  have "(\<exists>ex. mkdir_exist_ok p w = (Inl ex, w) \<and> issubclass_OSError (cls ex)) \<or>
        fst (mkdir_exist_ok p w) = Inr ()"
    by (simp add: mkdir_exist_ok_def os_error_def split: option.split node.split)
  with a show ?thesis by blast
qed

lemma desktop_dir_eq:
  "desktop_dir e w =
     (case desktop_of e (nodes w) of
        Some d \<Rightarrow> (Inr d, w)
      | None \<Rightarrow> (Inl (Exn FileNotFoundError not_found_text), w))"
  by (simp add: desktop_dir_def desktop_of_def exists_def return_def raise_def)

lemma can_write_update:
  "q \<noteq> p \<Longrightarrow> butlast q \<noteq> p \<Longrightarrow> can_write (AList.update p v ns) q = can_write ns q"
  by (simp add: can_write_cases AList.update_conv')

lemma bind_print: "bind (print s) k w = k () (w\<lparr>trace := trace w @ [Printed s]\<rparr>)"
  by (simp add: bind_def print_def)

lemma bind_write_file:
  "can_write (nodes w) p \<Longrightarrow>
   bind (write_file p c) k w =
     k () (w\<lparr>nodes := AList.update p (File True c) (nodes w), trace := trace w @ [Wrote p]\<rparr>)"
  by (simp add: bind_def write_file_ok)

lemma block_steps_ok:
  assumes "distinct (targets as)"
    and "\<forall>p \<in> set (targets as). butlast p \<notin> set (targets as)"
    and "\<forall>p \<in> set (targets as). can_write (nodes w) p"
    and "raises as = []"
  shows "block (map step as) w =
     (Inr (), w\<lparr>nodes := effect as (nodes w), trace := trace w @ events as\<rparr>)"
  using assms
proof (induction as arbitrary: w)
  case Nil
  then show ?case by (simp add: return_def)
next
  case (Cons a as)
  show ?case
  proof (cases a)
    case (Say s)
    let ?w1 = "w\<lparr>trace := trace w @ [Printed s]\<rparr>"
    have p: "print s w = (Inr (), ?w1)" by (simp add: print_def)
    have "block (map step as) ?w1 =
       (Inr (), ?w1\<lparr>nodes := effect as (nodes ?w1), trace := trace ?w1 @ events as\<rparr>)"
      using Cons.prems Say by (intro Cons.IH) simp_all
    then show ?thesis using Say by (simp add: bind_print)
  next
    case (Put p c)
    let ?w1 = "w\<lparr>nodes := AList.update p (File True c) (nodes w), trace := trace w @ [Wrote p]\<rparr>"
    from Cons.prems Put have cw: "can_write (nodes w) p" by simp
    have wr: "write_file p c w = (Inr (), ?w1)" by (rule write_file_ok [OF cw])
    have rest: "\<forall>q \<in> set (targets as). can_write (nodes ?w1) q"
    proof
      fix q assume q: "q \<in> set (targets as)"
      with Cons.prems Put have "q \<noteq> p" "butlast q \<noteq> p" "can_write (nodes w) q" by auto
      then show "can_write (nodes ?w1) q" by (simp add: can_write_update)
    qed
    have "block (map step as) ?w1 =
       (Inr (), ?w1\<lparr>nodes := effect as (nodes ?w1), trace := trace ?w1 @ events as\<rparr>)"
      using Cons.prems Put rest by (intro Cons.IH) simp_all
    then show ?thesis using Put cw by (simp add: bind_write_file)
  next
    case (Raise ex)
    with Cons.prems show ?thesis by simp
  qed
qed


lemma is_file_trace [simp]: "is_file (w\<lparr>trace := t\<rparr>) = is_file w"
  by (rule ext) (simp add: is_file_def)

lemma glob_star_trace [simp]: "glob_star (w\<lparr>trace := t\<rparr>) = glob_star w"
  by (rule ext) (simp add: glob_star_def)

lemma print_files_eq:
  "print_files fs w =
     (Inr (), w\<lparr>trace := trace w @
        map (\<lambda>file. Printed (bullet_text (last file))) (filter (is_file w) fs)\<rparr>)"
proof (induction fs arbitrary: w)
  case Nil
  then show ?case by (simp add: return_def)
next
  case (Cons f fs)
  show ?case
  proof (cases "is_file w f")
    case True
    have p: "print (bullet_text (last f)) w = (Inr (), w\<lparr>trace := trace w @ [Printed (bullet_text (last f))]\<rparr>)"
      by (simp add: print_def)
    show ?thesis using True by (simp add: bind_print Cons.IH)
  next
    case False
    then show ?thesis by (simp add: Cons.IH)
  qed
qed

lemma list_created_eq:
  "list_created folder w = (Inr (), w\<lparr>trace := trace w @ listing w folder\<rparr>)"
  by (simp add: list_created_def Let_def bind_def print_def print_files_eq listing_def)

lemma targets_append [simp]: "targets (xs @ ys) = targets xs @ targets ys"
  by (induction xs rule: targets.induct) simp_all

lemma image_script_loaded:
  assumes "PILLOW_AVAILABLE e \<longrightarrow> fonts_load e"
  shows "image_script e folder =
     (if PILLOW_AVAILABLE e then
        [Put (folder @ [''sample_image.png'']) (Encoded PNG sample_image),
         Put (folder @ [''test_photo.jpg'']) (Encoded JPEG test_photo),
         Say image_marker]
      else
        [Say pillow_warning,
         Put (folder @ [''sample_image.png'']) (Bytes ''PNG placeholder''),
         Put (folder @ [''test_photo.jpg'']) (Bytes ''JPEG placeholder'')])"
  using assms by (simp add: image_script_def fonts_load_def split: sum.splits)

lemma targets_image_script:
  "targets (image_script e folder) = [] \<or>
   targets (image_script e folder) = [folder @ [''sample_image.png'']] \<or>
   targets (image_script e folder) = [folder @ [''sample_image.png''], folder @ [''test_photo.jpg'']]"
  by (simp add: image_script_def split: sum.splits)

lemma targets_builders_script:
  "targets (builders_script e folder) =
     [folder @ [''readme.txt''], folder @ [''notes.txt'']] @ targets (image_script e folder) @
     map (\<lambda>name. folder @ [name])
       [''test_document.pdf'', ''report.rtf'', ''test_archive.zip'', ''backup.rar'',
        ''sample_script.py'', ''app.js'', ''index.html'',
        ''config.json'', ''data.xml'', ''organizer.log'']"
  by (simp add: builders_script_def text_script_def document_script_def archive_script_def
      code_script_def other_script_def)

lemma targets_run_script_builders:
  "targets (run_script e folder) = targets (builders_script e folder)"
  by (simp add: run_script_def)

lemma targets_run_script:
  "PILLOW_AVAILABLE e \<longrightarrow> fonts_load e \<Longrightarrow>
   targets (run_script e folder) = map (\<lambda>name. folder @ [name]) file_names"
  by (simp add: targets_run_script_builders targets_builders_script image_script_loaded
      file_names_def)

lemma raises_run_script:
  "PILLOW_AVAILABLE e \<longrightarrow> fonts_load e \<Longrightarrow> raises (run_script e folder) = []"
  by (simp add: run_script_def builders_script_def text_script_def image_script_loaded
      document_script_def archive_script_def code_script_def other_script_def)

lemma targets_run_script_subset:
  "set (targets (run_script e folder)) \<subseteq> (\<lambda>name. folder @ [name]) ` set file_names"
  using targets_image_script [of e folder]
  by (auto simp: targets_run_script_builders targets_builders_script file_names_def)


lemma distinct_targets_builders_script: "distinct (targets (builders_script e folder))"
  using targets_image_script [of e folder]
  by (auto simp: targets_builders_script)

lemma distinct_targets_run_script: "distinct (targets (run_script e folder))"
  by (simp add: targets_run_script_builders distinct_targets_builders_script)

lemma parents_run_script:
  "\<forall>p \<in> set (targets (run_script e folder)). butlast p \<notin> set (targets (run_script e folder))"
proof
  fix p assume "p \<in> set (targets (run_script e folder))"
  then obtain name where p: "p = folder @ [name]"
    using targets_run_script_subset [of e folder] by auto
  have "butlast p \<notin> (\<lambda>name. folder @ [name]) ` set file_names"
    unfolding p by auto
  then show "butlast p \<notin> set (targets (run_script e folder))"
    using targets_run_script_subset [of e folder] by blast
qed

lemma listing_trace [simp]: "listing (w\<lparr>trace := t\<rparr>) folder = listing w folder"
  by (simp add: listing_def)

lemma ready_unfold:
  assumes "ready e ns"
  obtains desktop where "desktop_of e ns = Some desktop"
    and "can_mkdir ns (desktop @ [''test_files''])"
    and "\<forall>p \<in> set (targets (run_script e (desktop @ [''test_files'']))).
           can_write (made ns (desktop @ [''test_files''])) p"
    and "raises (run_script e (desktop @ [''test_files''])) = []"
    and "PILLOW_AVAILABLE e \<longrightarrow> fonts_load e"
proof -
  from assms obtain d where d: "desktop_of e ns = Some d"
    by (auto simp: ready_def split: option.splits)
  with assms have mk: "can_mkdir ns (d @ [''test_files''])"
    and fl: "PILLOW_AVAILABLE e \<longrightarrow> fonts_load e"
    and "list_all (\<lambda>name. can_write (made ns (d @ [''test_files'']))
                      (d @ [''test_files'', name])) file_names"
    by (simp_all add: ready_def)
  then have "\<forall>p \<in> set (targets (run_script e (d @ [''test_files'']))).
           can_write (made ns (d @ [''test_files''])) p"
    by (auto simp: targets_run_script list_all_iff)
  with d mk show ?thesis using raises_run_script [OF fl] fl by (rule that)
qed

lemma populate_ok:
  assumes mk: "can_mkdir (nodes w) (desktop @ [''test_files''])"
    and cw: "\<forall>p \<in> set (targets (run_script e (desktop @ [''test_files'']))).
           can_write (made (nodes w) (desktop @ [''test_files''])) p"
    and nr: "raises (run_script e (desktop @ [''test_files''])) = []"
  shows "populate e desktop w = (Inr (), finished e desktop w)"
proof -
  let ?tf = "desktop @ [''test_files'']"
  let ?w1 = "w\<lparr>nodes := made (nodes w) ?tf, trace := trace w @ made_events (nodes w) ?tf\<rparr>"
  let ?rs = "run_script e ?tf"
  let ?w2 = "?w1\<lparr>nodes := effect ?rs (nodes ?w1), trace := trace ?w1 @ events ?rs\<rparr>"
  have a: "mkdir_exist_ok ?tf w = (Inr (), ?w1)" by (rule mkdir_ok [OF mk])
  have b: "block (map step ?rs) ?w1 = (Inr (), ?w2)"
    using cw nr by (intro block_steps_ok distinct_targets_run_script parents_run_script) simp_all
  have c: "list_created ?tf ?w2 = (Inr (), ?w2\<lparr>trace := trace ?w2 @ listing ?w2 ?tf\<rparr>)"
    by (rule list_created_eq)
  have "populate e desktop w = (Inr (), ?w2\<lparr>trace := trace ?w2 @ listing ?w2 ?tf\<rparr>)"
    unfolding populate_script using a b c by (simp add: bind_def)
  also have "?w2\<lparr>trace := trace ?w2 @ listing ?w2 ?tf\<rparr> = finished e desktop w"
    by (simp add: finished_def Let_def)
  finally show ?thesis .
qed

lemma create_test_files_ok:
  assumes "ready e (nodes w)"
  shows "\<exists>desktop. desktop_of e (nodes w) = Some desktop \<and>
           create_test_files e w = (Inr (), finished e desktop w)"
proof -
  from assms obtain d where d: "desktop_of e (nodes w) = Some d"
    and mk: "can_mkdir (nodes w) (d @ [''test_files''])"
    and cw: "\<forall>p \<in> set (targets (run_script e (d @ [''test_files'']))).
           can_write (made (nodes w) (d @ [''test_files''])) p"
    and nr: "raises (run_script e (d @ [''test_files''])) = []"
    by (rule ready_unfold)
  have "create_test_files e w = populate e d w"
    by (simp add: create_test_files_def bind_def desktop_dir_eq d)
  with populate_ok [OF mk cw nr] d show ?thesis by simp
qed

section \<open>The file system a run leaves\<close>






section \<open>What can be raised\<close>

lemma can_write_iff: "can_write (nodes w) p \<longleftrightarrow> fst (write_file p c w) = Inr ()"
proof (cases "can_write (nodes w) p")
  case True
  then show ?thesis by (simp add: write_file_ok)
next
  case False
  then show ?thesis using write_file_fails [OF False, of c] by auto
qed

lemma block_steps_raises:
  "block (map step as) w = (Inl ex, w') \<Longrightarrow>
   \<forall>x \<in> set (raises as). issubclass_OSError (cls x) \<Longrightarrow> issubclass_OSError (cls ex)"
proof (induction as arbitrary: w)
  case Nil
  then show ?case by (simp add: return_def)
next
  case (Cons a as)
  show ?case
  proof (cases a)
    case (Say s)
    with Cons show ?thesis by (auto simp: bind_print)
  next
    case (Put p c)
    show ?thesis
    proof (cases "can_write (nodes w) p")
      case True
      with Cons Put show ?thesis by (auto simp: bind_write_file)
    next
      case False
      then obtain ex' where "write_file p c w = (Inl ex', w)" "issubclass_OSError (cls ex')"
        using write_file_fails by blast
      with Cons.prems Put show ?thesis by (simp add: bind_def)
    qed
  next
    case (Raise x)
    with Cons.prems show ?thesis by (auto simp: raise_def)
  qed
qed

lemma raises_image_script: "\<forall>x \<in> set (raises (image_script e folder)). cls x = OSError"
  by (simp add: image_script_def split: sum.splits)

lemma raises_builders_script:
  "\<forall>x \<in> set (raises (builders_script e folder)). issubclass_OSError (cls x)"
  using raises_image_script [of e folder]
  by (simp add: builders_script_def text_script_def document_script_def
      archive_script_def code_script_def other_script_def)

lemma raises_run_script_OSError:
  "\<forall>x \<in> set (raises (run_script e folder)). issubclass_OSError (cls x)"
  using raises_builders_script [of e folder] by (simp add: run_script_def)

lemma populate_raises:
  assumes "populate e desktop w = (Inl ex, w')"
  shows "issubclass_OSError (cls ex)"
proof (cases "can_mkdir (nodes w) (desktop @ [''test_files''])")
  case True
  let ?tf = "desktop @ [''test_files'']"
  let ?w1 = "w\<lparr>nodes := made (nodes w) ?tf, trace := trace w @ made_events (nodes w) ?tf\<rparr>"
  have a: "mkdir_exist_ok ?tf w = (Inr (), ?w1)" by (rule mkdir_ok [OF True])
  obtain r w2 where b: "block (map step (run_script e ?tf)) ?w1 = (r, w2)" by force
  show ?thesis
  proof (cases r)
    case (Inl ex')
    with assms a b have "ex' = ex" unfolding populate_script by (simp add: bind_def)
    with b Inl show ?thesis using raises_run_script_OSError [of e ?tf]
      by (auto dest: block_steps_raises)
  next
    case (Inr u)
    with assms a b show ?thesis unfolding populate_script
      by (simp add: bind_def list_created_eq)
  qed
next
  case False
  then obtain ex' where "mkdir_exist_ok (desktop @ [''test_files'']) w = (Inl ex', w)"
    "issubclass_OSError (cls ex')"
    using mkdir_fails by blast
  with assms show ?thesis unfolding populate_script by (simp add: bind_def)
qed

lemma create_test_files_raises:
  assumes "create_test_files e w = (Inl ex, w')"
  shows "issubclass_OSError (cls ex)"
proof (cases "desktop_of e (nodes w)")
  case None
  with assms show ?thesis
    by (auto simp: create_test_files_def bind_def desktop_dir_eq)
next
  case (Some d)
  with assms have "populate e d w = (Inl ex, w')"
    by (simp add: create_test_files_def bind_def desktop_dir_eq)
  then show ?thesis by (rule populate_raises)
qed

lemma OSError_is_Exception: "issubclass_OSError c \<Longrightarrow> issubclass_Exception c"
  by (cases c) simp_all

text \<open>
  Claim C2.  When neither \<open>Desktop\<close> nor \<open>Pulpit\<close> exists under the home directory,
  \<open>create_test_files\<close> raises \<open>FileNotFoundError\<close> and the world is the one it started
  in: no directory was made, no file written and no line printed.  When \<open>Desktop\<close>
  exists it is the base directory, whether or not \<open>Pulpit\<close> exists too; when only
  \<open>Pulpit\<close> exists, that one is.
\<close>

theorem desktop_resolution:
  "(\<not> exists w (home e @ [''Desktop'']) \<and> \<not> exists w (home e @ [''Pulpit'']) \<longrightarrow>
      create_test_files e w = (Inl (Exn FileNotFoundError not_found_text), w)) \<and>
   (exists w (home e @ [''Desktop'']) \<longrightarrow>
      desktop_dir e w = (Inr (home e @ [''Desktop'']), w) \<and>
      create_test_files e w = populate e (home e @ [''Desktop'']) w) \<and>
   (\<not> exists w (home e @ [''Desktop'']) \<and> exists w (home e @ [''Pulpit'']) \<longrightarrow>
      desktop_dir e w = (Inr (home e @ [''Pulpit'']), w) \<and>
      create_test_files e w = populate e (home e @ [''Pulpit'']) w)"
  by (simp add: create_test_files_def desktop_dir_def bind_def return_def raise_def)

theorem desktop_resolution_witness:
  "\<not> exists bare_world (home env_plain @ [''Desktop'']) \<and>
   \<not> exists bare_world (home env_plain @ [''Pulpit'']) \<and>
   create_test_files env_plain bare_world = (Inl (Exn FileNotFoundError not_found_text), bare_world) \<and>
   exists fresh_world (home env_plain @ [''Desktop'']) \<and>
   create_test_files env_plain fresh_world = populate env_plain (home0 @ [''Desktop'']) fresh_world \<and>
   \<not> exists pulpit_world (home env_plain @ [''Desktop'']) \<and>
   exists pulpit_world (home env_plain @ [''Pulpit'']) \<and>
   create_test_files env_plain pulpit_world = populate env_plain (home0 @ [''Pulpit'']) pulpit_world"
proof -
  have a: "\<not> exists bare_world (home env_plain @ [''Desktop''])"
    "\<not> exists bare_world (home env_plain @ [''Pulpit''])"
    by (simp_all add: exists_def bare_world_def env_plain_def home0_def)
  have b: "exists fresh_world (home env_plain @ [''Desktop''])"
    by (simp add: exists_def fresh_world_def env_plain_def home0_def)
  have c: "\<not> exists pulpit_world (home env_plain @ [''Desktop''])"
    "exists pulpit_world (home env_plain @ [''Pulpit''])"
    by (simp_all add: exists_def pulpit_world_def env_plain_def home0_def)
  have h: "home env_plain = home0" by (simp add: env_plain_def)
  show ?thesis
    using a b c desktop_resolution [of bare_world env_plain]
      desktop_resolution [of fresh_world env_plain]
      desktop_resolution [of pulpit_world env_plain]
    by (simp add: h)
qed



text \<open>
  Claim C5.  The entry point always runs to its end.  Whatever exception the generation
  raises (the resolution failure or an \<open>OSError\<close> of a builder's file-system call) is
  below \<open>Exception\<close>, so the handler catches it: the error line, which ends with the
  text of the exception, and the hint are printed after what the run had printed, nothing
  is raised again and the process exits normally.
\<close>

theorem main_catches_every_exception:
  "fst (main e w) = Exits_normally \<and>
   (create_test_files e (banner w) = (Inl ex, w') \<longrightarrow>
      issubclass_OSError (cls ex) \<and>
      main e w = (Exits_normally,
                  w'\<lparr>trace := trace w' @ [Printed (error_text ex), Printed hint_text]\<rparr>) \<and>
      suffix (str ex) (error_text ex))"
proof -
  have w1: "snd (block [print banner_text, print (replicate 50 (CHR ''=''))] w) = banner w"
    by (simp add: bind_def print_def banner_def del: replicate.simps)
  have caught: "main e w = (Exits_normally,
        w2\<lparr>trace := trace w2 @ [Printed (error_text x), Printed hint_text]\<rparr>) \<and>
      issubclass_OSError (cls x)"
    if run: "create_test_files e (banner w) = (Inl x, w2)" for x w2
  proof -
    from run have os: "issubclass_OSError (cls x)" by (rule create_test_files_raises)
    then have ex: "issubclass_Exception (cls x)" by (rule OSError_is_Exception)
    have "block [create_test_files e, print all_created_text, print now_test_text] (banner w) =
          (Inl x, w2)"
      using run by (simp add: bind_def)
    moreover have "snd (block [print (error_text x), print hint_text] w2) =
          w2\<lparr>trace := trace w2 @ [Printed (error_text x), Printed hint_text]\<rparr>"
      by (simp add: bind_def print_def)
    ultimately show ?thesis using ex os
      by (simp add: main_def Let_def w1 del: block.simps)
  qed
  have sfx: "suffix (str ex) (error_text ex)"
    by (simp add: error_text_def suffix_def)
  obtain r w2 where run: "create_test_files e (banner w) = (r, w2)" by force
  have "fst (main e w) = Exits_normally"
  proof (cases r)
    case (Inl x)
    with run caught [of x w2] show ?thesis by simp
  next
    case (Inr u)
    with run have "\<exists>w3. block [create_test_files e, print all_created_text, print now_test_text]
        (banner w) = (Inr (), w3)"
      by (simp add: bind_def print_def)
    then show ?thesis by (auto simp: main_def Let_def w1 simp del: block.simps)
  qed
  with caught sfx show ?thesis by blast
qed

lemma loads_dumps_json_data: "loads (dumps json_data 2) = Some json_data"
  by code_simp


theorem main_catches_every_exception_witness:
  "create_test_files env_plain (banner bare_world) =
     (Inl (Exn FileNotFoundError not_found_text), banner bare_world) \<and>
   main env_plain bare_world =
     (Exits_normally,
      (banner bare_world)\<lparr>trace := trace (banner bare_world) @
         [Printed (error_text (Exn FileNotFoundError not_found_text)), Printed hint_text]\<rparr>) \<and>
   suffix not_found_text (error_text (Exn FileNotFoundError not_found_text)) \<and>
   fst (create_test_files env_plain (banner readonly_world)) =
     Inl (os_error PermissionError (home0 @ [''Desktop'', ''test_files'', ''readme.txt''])) \<and>
   main env_plain readonly_world =
     (Exits_normally,
      (snd (create_test_files env_plain (banner readonly_world)))
         \<lparr>trace := trace (snd (create_test_files env_plain (banner readonly_world))) @
         [Printed (error_text (os_error PermissionError
            (home0 @ [''Desktop'', ''test_files'', ''readme.txt'']))), Printed hint_text]\<rparr>)"
proof -
  have a: "create_test_files env_plain (banner bare_world) =
     (Inl (Exn FileNotFoundError not_found_text), banner bare_world)"
    by (simp add: create_test_files_def desktop_dir_def bind_def raise_def exists_def banner_def
        bare_world_def env_plain_def home0_def)
  have "populate env_plain (home0 @ [''Desktop'']) (banner readonly_world) =
      (Inl (os_error PermissionError (home0 @ [''Desktop'', ''test_files'', ''readme.txt''])),
       snd (populate env_plain (home0 @ [''Desktop'']) (banner readonly_world)))"
    by (simp add: populate_def Let_def bind_def mkdir_exist_ok_def print_def create_text_files_def
        write_text_def write_file_def banner_def readonly_world_def home0_def)
  then have b: "create_test_files env_plain (banner readonly_world) =
     (Inl (os_error PermissionError (home0 @ [''Desktop'', ''test_files'', ''readme.txt''])),
      snd (create_test_files env_plain (banner readonly_world)))"
    by (simp add: create_test_files_def desktop_dir_def bind_def return_def exists_def banner_def
        readonly_world_def env_plain_def home0_def)
  have m1: "main env_plain bare_world =
     (Exits_normally,
      (banner bare_world)\<lparr>trace := trace (banner bare_world) @
         [Printed (error_text (Exn FileNotFoundError not_found_text)), Printed hint_text]\<rparr>)"
    and s1: "suffix not_found_text (error_text (Exn FileNotFoundError not_found_text))"
    using a main_catches_every_exception [of env_plain bare_world
        "Exn FileNotFoundError not_found_text" "banner bare_world"]
    by simp_all
  have m2: "main env_plain readonly_world =
     (Exits_normally,
      (snd (create_test_files env_plain (banner readonly_world)))
         \<lparr>trace := trace (snd (create_test_files env_plain (banner readonly_world))) @
         [Printed (error_text (os_error PermissionError
            (home0 @ [''Desktop'', ''test_files'', ''readme.txt'']))), Printed hint_text]\<rparr>)"
    using b main_catches_every_exception [of env_plain readonly_world
        "os_error PermissionError (home0 @ [''Desktop'', ''test_files'', ''readme.txt''])"
        "snd (create_test_files env_plain (banner readonly_world))"]
    by blast
  have fb: "fst (create_test_files env_plain (banner readonly_world)) =
     Inl (os_error PermissionError (home0 @ [''Desktop'', ''test_files'', ''readme.txt'']))"
    using b by (metis fst_conv)
  from a m1 s1 fb m2 show ?thesis by (intro conjI)
qed

text \<open>
  Claim C7.  Whenever \<open>config.json\<close> can be written, the text that
  \<open>create_other_files\<close> leaves there decodes as JSON to an object with exactly the keys
  \<open>app_name\<close>, \<open>version\<close>, \<open>author\<close>, \<open>test_files\<close> and \<open>features\<close>, in this order,
  where \<open>test_files\<close> is the list of three fixed strings and \<open>features\<close> the list of
  four fixed strings.
\<close>

theorem config_json_decodes:
  assumes "fst (write_text (folder @ [''config.json'']) (dumps json_data 2) w) = Inr ()"
  shows "\<exists>s. read_file (snd (create_other_files folder w)) (folder @ [''config.json'']) =
            Some (Bytes s) \<and>
          loads s = Some (JObject
            [(''app_name'', JString ''File Organizer Pro''),
             (''version'', JString ''1.0''),
             (''author'', JString ''Darius04-ux''),
             (''test_files'', JArray
                [JString ''readme.txt'', JString ''sample_image.png'',
                 JString ''test_document.pdf'']),
             (''features'', JArray
                [JString ''File organization'', JString ''GUI interface'',
                 JString ''Undo functionality'', JString ''Logging system''])])"
proof -
  from assms have cw: "can_write (nodes w) (folder @ [''config.json''])"
    by (simp add: write_text_def can_write_iff [symmetric])
  have "nodes (snd (create_other_files folder w)) = effect (other_script folder) (nodes w)"
    by (simp add: create_other_files_script nodes_block_steps)
  then have "read_file (snd (create_other_files folder w)) (folder @ [''config.json'']) =
      Some (Bytes (dumps json_data 2))"
    using cw by (simp add: read_file_def other_script_def AList.update_conv')
  moreover have "loads (dumps json_data 2) = Some (JObject
            [(''app_name'', JString ''File Organizer Pro''),
             (''version'', JString ''1.0''),
             (''author'', JString ''Darius04-ux''),
             (''test_files'', JArray
                [JString ''readme.txt'', JString ''sample_image.png'',
                 JString ''test_document.pdf'']),
             (''features'', JArray
                [JString ''File organization'', JString ''GUI interface'',
                 JString ''Undo functionality'', JString ''Logging system''])])"
    using loads_dumps_json_data by (simp add: json_data_def)
  ultimately show ?thesis by blast
qed

theorem config_json_decodes_witness:
  "fst (write_text ((home0 @ [''Desktop'']) @ [''config.json'']) (dumps json_data 2) fresh_world)
     = Inr () \<and>
   (\<exists>s. read_file (snd (create_other_files (home0 @ [''Desktop'']) fresh_world))
            ((home0 @ [''Desktop'']) @ [''config.json'']) = Some (Bytes s) \<and>
        loads s = Some (JObject
            [(''app_name'', JString ''File Organizer Pro''),
             (''version'', JString ''1.0''),
             (''author'', JString ''Darius04-ux''),
             (''test_files'', JArray
                [JString ''readme.txt'', JString ''sample_image.png'',
                 JString ''test_document.pdf'']),
             (''features'', JArray
                [JString ''File organization'', JString ''GUI interface'',
                 JString ''Undo functionality'', JString ''Logging system''])]))"
proof -
  have h: "fst (write_text ((home0 @ [''Desktop'']) @ [''config.json'']) (dumps json_data 2)
      fresh_world) = Inr ()"
    by (simp add: write_text_def write_file_def fresh_world_def home0_def)
  show ?thesis using h config_json_decodes [OF h] by simp
qed

section \<open>Running twice\<close>

lemma map_of_undated: "map_of (undated z ns) p = map_option (undated_node z p) (map_of ns p)"
  by (induction ns) (auto simp: undated_def)

lemma can_write_undated [simp]: "can_write (undated z ns) p = can_write ns p"
proof -
  have kind: "(\<exists>pw. map_option (undated_node z q) (map_of ns q) = Some (Dir pw)) =
              (\<exists>pw. map_of ns q = Some (Dir pw))"
       "(\<exists>c. map_option (undated_node z q) (map_of ns q) = Some (File True c)) =
              (\<exists>c. map_of ns q = Some (File True c))" for q
  proof -
    show "(\<exists>pw. map_option (undated_node z q) (map_of ns q) = Some (Dir pw)) =
              (\<exists>pw. map_of ns q = Some (Dir pw))"
    proof (cases "map_of ns q")
      case None
      then show ?thesis by simp
    next
      case (Some n)
      then show ?thesis by (cases n) simp_all
    qed
    show "(\<exists>c. map_option (undated_node z q) (map_of ns q) = Some (File True c)) =
              (\<exists>c. map_of ns q = Some (File True c))"
    proof (cases "map_of ns q")
      case None
      then show ?thesis by simp
    next
      case (Some n)
      then show ?thesis by (cases n) simp_all
    qed
  qed
  have dir: "map_option (undated_node z q) (map_of ns q) = Some (Dir pw) \<longleftrightarrow>
             map_of ns q = Some (Dir pw)" for q pw
  proof (cases "map_of ns q")
    case None
    then show ?thesis by simp
  next
    case (Some n)
    then show ?thesis by (cases n) simp_all
  qed
  show ?thesis
    unfolding can_write_cases map_of_undated dir kind by simp
qed
































lemma events_run_script:
  assumes "PILLOW_AVAILABLE e \<longrightarrow> fonts_load e"
  shows "events (run_script e folder) =
     [Printed (creating_text @ str_path folder),
      Wrote (folder @ [''readme.txt'']), Wrote (folder @ [''notes.txt'']), Printed text_marker] @
     (if PILLOW_AVAILABLE e
      then [Wrote (folder @ [''sample_image.png'']), Wrote (folder @ [''test_photo.jpg'']),
            Printed image_marker]
      else [Printed pillow_warning,
            Wrote (folder @ [''sample_image.png'']), Wrote (folder @ [''test_photo.jpg''])]) @
     [Wrote (folder @ [''test_document.pdf'']), Wrote (folder @ [''report.rtf'']),
      Printed document_marker,
      Wrote (folder @ [''test_archive.zip'']), Wrote (folder @ [''backup.rar'']),
      Printed archive_marker,
      Wrote (folder @ [''sample_script.py'']), Wrote (folder @ [''app.js'']),
      Wrote (folder @ [''index.html'']), Printed code_marker,
      Wrote (folder @ [''config.json'']), Wrote (folder @ [''data.xml'']),
      Wrote (folder @ [''organizer.log'']), Printed other_marker,
      Printed success_text, Printed (location_text @ str_path folder)]"
  by (simp add: run_script_def builders_script_def text_script_def image_script_loaded [OF assms]
      document_script_def archive_script_def code_script_def other_script_def)







lemma listing_trace_nodes [simp]:
  "listing (w\<lparr>trace := t, nodes := ns\<rparr>) folder = listing (w\<lparr>nodes := ns\<rparr>) folder"
proof -
  have "is_file (w\<lparr>trace := t, nodes := ns\<rparr>) = is_file (w\<lparr>nodes := ns\<rparr>)"
    by (rule ext) (simp add: is_file_def)
  then show ?thesis by (simp add: listing_def glob_star_def)
qed







text \<open>
  Claim C10, where the code departs from it.  With Pillow present, the \<open>try\<close> statement
  catches the \<open>IOError\<close> of \<open>ImageFont.load_default()\<close> and leaves \<open>font = None\<close>.  The
  first \<open>draw.text\<close> then gets \<open>font=None\<close> and asks Pillow for its default font, which
  calls \<open>load_default\<close> again.  When that call fails as the first did, the exception
  leaves \<open>create_image_files\<close>: the builder raises \<open>OSError\<close> in the world it started
  in, so no image file is written and nothing is printed.
\<close>

theorem font_failure_ends_the_builder:
  assumes "PILLOW_AVAILABLE e"
    and "load_default e 0 = Inl msg"
    and "load_default e 1 = Inl msg'"
  shows "create_image_files e folder w = (Inl (Exn OSError msg'), w)"
  using assms
  by (simp add: create_image_files_def draw_sample_raises raise_def)

theorem font_failure_ends_the_builder_witness:
  "PILLOW_AVAILABLE env_nofont \<and>
   load_default env_nofont 0 = Inl ''cannot open resource'' \<and>
   load_default env_nofont 1 = Inl ''cannot open resource'' \<and>
   create_image_files env_nofont (home0 @ [''Desktop'']) fresh_world =
     (Inl (Exn OSError ''cannot open resource''), fresh_world) \<and>
   can_write (nodes fresh_world) (home0 @ [''Desktop'', ''sample_image.png'']) \<and>
   can_write (nodes fresh_world) (home0 @ [''Desktop'', ''test_photo.jpg'']) \<and>
   read_file fresh_world (home0 @ [''Desktop'', ''sample_image.png'']) = None \<and>
   read_file fresh_world (home0 @ [''Desktop'', ''test_photo.jpg'']) = None"
proof -
  have p: "PILLOW_AVAILABLE env_nofont"
    and l0: "load_default env_nofont 0 = Inl ''cannot open resource''"
    and l1: "load_default env_nofont 1 = Inl ''cannot open resource''"
    by (simp_all add: env_nofont_def)
  have c: "can_write (nodes fresh_world) (home0 @ [''Desktop'', ''sample_image.png''])"
    "can_write (nodes fresh_world) (home0 @ [''Desktop'', ''test_photo.jpg''])"
    "read_file fresh_world (home0 @ [''Desktop'', ''sample_image.png'']) = None"
    "read_file fresh_world (home0 @ [''Desktop'', ''test_photo.jpg'']) = None"
    by (simp_all add: can_write_def read_file_def fresh_world_def home0_def)
  show ?thesis
    using p l0 l1 c font_failure_ends_the_builder [OF p l0 l1, of "home0 @ [''Desktop'']" fresh_world]
    by simp
qed







lemma ready_organized: "ready env_plain (nodes organized_world)"
  by (simp add: ready_def desktop_of_def can_mkdir_def made_def can_write_def file_names_def
      organized_world_def home0_def env_plain_def)

lemma run_organized:
  "create_test_files env_plain organized_world =
     (Inr (), finished env_plain (home0 @ [''Desktop'']) organized_world)"
proof -
  have "desktop_of env_plain (nodes organized_world) = Some (home0 @ [''Desktop''])"
    by (simp add: desktop_of_def organized_world_def home0_def env_plain_def)
  with create_test_files_ok [OF ready_organized] show ?thesis by auto
qed

lemma listing_organized:
  "listing (finished env_plain (home0 @ [''Desktop'']) organized_world)
     (home0 @ [''Desktop'', ''test_files'']) =
   Printed (created_count_text 15) # map (\<lambda>name. Printed (bullet_text name)) organized_names"
  by code_simp

lemma trace_finished:
  "trace (finished e d w) =
     trace w @ made_events (nodes w) (d @ [''test_files'']) @
     events (run_script e (d @ [''test_files''])) @
     listing (finished e d w) (d @ [''test_files''])"
  by (simp add: finished_def Let_def)

text \<open>
  Claim C6, evaluated where the code departs from it.  The subfolder holds a directory
  \<open>Documents\<close> before the run.  The run completes; the count line says 15, the number of
  all entries of the subfolder, and the fourteen lines after it name the regular files in
  sorted order: the count is not the number of files listed.
\<close>

theorem listing_counts_directories:
  "fst (create_test_files env_plain organized_world) = Inr () \<and>
   is_dir organized_world (home0 @ [''Desktop'', ''test_files'', ''Documents'']) \<and>
   drop 9 (stdout (snd (create_test_files env_plain organized_world))) =
     created_count_text 15 # map bullet_text organized_names \<and>
   str_nat 15 = ''15'' \<and>
   length organized_names = 14"
proof -
  have p: "\<not> PILLOW_AVAILABLE env_plain"
    and fl: "PILLOW_AVAILABLE env_plain \<longrightarrow> fonts_load env_plain"
    by (simp_all add: env_plain_def)
  have t0: "trace organized_world = []" by (simp add: organized_world_def)
  have m0: "made_events (nodes organized_world) (home0 @ [''Desktop'', ''test_files'']) = []"
    by (simp add: made_events_def organized_world_def home0_def)
  have a: "is_dir organized_world (home0 @ [''Desktop'', ''test_files'', ''Documents''])"
    by (simp add: is_dir_def organized_world_def home0_def)
  have b: "drop 9 (stdout (snd (create_test_files env_plain organized_world))) =
     created_count_text 15 # map bullet_text organized_names"
    by (simp add: run_organized stdout_def trace_finished events_run_script [OF fl] p t0 m0
        listing_organized comp_def)
  have c: "str_nat 15 = ''15''" by (simp add: str_nat.simps)
  have d: "length organized_names = 14" by (simp add: organized_names_def)
  from a b c d show ?thesis by (simp add: run_organized)
qed

end
